theory Spec2Isabelle
  imports Complex_Main "HOL-Library.List_Lexorder" "HOL-Library.Char_ord"
begin

section \<open>Python values used by the weather predictor\<close>

text \<open>
  A number as Python holds it after decoding JSON or reading a CSV cell: a finite value,
  or the float NaN that pandas puts in an empty numeric cell. A dictionary entry that
  may be \<^verbatim>\<open>None\<close> is a \<open>num option\<close>. Infinities are not modelled.
\<close>

datatype num = Num real | NaN

datatype exn = TypeError | ValueError | IndexError | KeyError | FileNotFoundError
  | RequestException | ModelError

text \<open>Truth value of \<^verbatim>\<open>x\<close> in \<^verbatim>\<open>if x\<close>, \<^verbatim>\<open>not x\<close>, \<^verbatim>\<open>x and y\<close>, \<^verbatim>\<open>x or y\<close>:
  \<^verbatim>\<open>None\<close> and zero are false, every other number (NaN too) is true.\<close>

fun truthy :: "num option \<Rightarrow> bool" where
  "truthy None = False"
| "truthy (Some NaN) = True"
| "truthy (Some (Num r)) = (r \<noteq> 0)"

text \<open>\<^verbatim>\<open>x > c\<close> on a number: every comparison with NaN is false.\<close>

fun num_gt :: "num \<Rightarrow> real \<Rightarrow> bool" where
  "num_gt (Num r) c = (c < r)"
| "num_gt NaN c = False"

text \<open>\<^verbatim>\<open>x or d\<close>: the left operand when it is true, the right one otherwise.\<close>

definition py_or :: "num option \<Rightarrow> num \<Rightarrow> num option" where
  "py_or x d = (if truthy x then x else Some d)"

section \<open>predict.py: AQI category and health advice\<close>

text \<open>The dictionary literal of \<^verbatim>\<open>get_aqi_category\<close> (the same in predict.py and app.py).\<close>

definition categories :: "int \<rightharpoonup> string" where
  "categories = [1 \<mapsto> ''Good'', 2 \<mapsto> ''Fair'', 3 \<mapsto> ''Moderate'', 4 \<mapsto> ''Poor'',
     5 \<mapsto> ''Very Poor'']"

text \<open>\<^verbatim>\<open>categories.get(aqi, "Unknown")\<close>\<close>

definition get_aqi_category :: "int \<Rightarrow> string" where
  "get_aqi_category aqi = (case categories aqi of Some c \<Rightarrow> c | None \<Rightarrow> ''Unknown'')"

text \<open>The copy in app.py, lines 41-49: the same dictionary and the same lookup.\<close>

definition app_get_aqi_category :: "int \<Rightarrow> string" where
  "app_get_aqi_category aqi = (case categories aqi of Some c \<Rightarrow> c | None \<Rightarrow> ''Unknown'')"

text \<open>The three advisory texts. Each source string starts with a pictograph and a
  space, left out here; the wording after it is the source's.\<close>

definition poor_text :: string where
  "poor_text = ''Air quality is poor. Avoid outdoor activities. Wear a mask if going outside.''"

definition moderate_text :: string where
  "moderate_text = ''Moderate air quality. Sensitive groups should limit outdoor activities.''"

definition good_text :: string where
  "good_text = ''Air quality is good. Safe for outdoor activities.''"

text \<open>
  \<^verbatim>\<open>if aqi >= 4 or (pm25 and pm25 > 55): ... elif aqi == 3: ... else: ...\<close>
  for an integer \<^verbatim>\<open>aqi\<close>; the comparison \<^verbatim>\<open>pm25 > 55\<close> is only reached when
  \<^verbatim>\<open>pm25\<close> is true, so never on \<^verbatim>\<open>None\<close>.
\<close>

definition get_health_advice :: "int \<Rightarrow> num option \<Rightarrow> string" where
  "get_health_advice aqi pm25 =
     (if aqi \<ge> 4 \<or> (truthy pm25 \<and> (case pm25 of Some v \<Rightarrow> num_gt v 55 | None \<Rightarrow> False))
      then poor_text
      else if aqi = 3 then moderate_text
      else good_text)"

section \<open>data_collector.py: the reading\<close>

text \<open>What the program reads of a \<^verbatim>\<open>datetime\<close>: \<^verbatim>\<open>.hour\<close>, \<^verbatim>\<open>.month\<close> and the
  text \<^verbatim>\<open>str()\<close> renders.\<close>

record datetime =
  hour :: nat
  month :: nat
  dt_str :: string

text \<open>The dictionary built by \<^verbatim>\<open>_parse_data\<close>. Every field read with \<^verbatim>\<open>.get\<close> is
  \<^verbatim>\<open>None\<close> when the source did not report it.\<close>

record reading =
  timestamp :: datetime
  city :: string
  temperature :: "num option"
  feels_like :: "num option"
  temp_min :: "num option"
  temp_max :: "num option"
  pressure :: "num option"
  humidity :: "num option"
  wind_speed :: "num option"
  wind_deg :: "num option"
  clouds :: "num option"
  weather_main :: "string option"
  weather_description :: "string option"
  aqi :: "int option"
  pm2_5 :: "num option"
  pm10 :: "num option"
  co :: "num option"
  no2 :: "num option"
  o3 :: "num option"
  so2 :: "num option"

text \<open>
  The three remote services, as the collector sees them: what \<^verbatim>\<open>requests.get\<close>,
  \<^verbatim>\<open>raise_for_status\<close> and \<^verbatim>\<open>.json()\<close> give for a request, or the exception they
  raise. A JSON object is a map from keys to values; a key of the outer object that may
  be missing is an option. \<open>clock\<close> is what \<^verbatim>\<open>datetime.now()\<close> returns in
  \<^verbatim>\<open>_parse_data\<close>.
\<close>

record weather_json =
  wj_main :: "(string \<rightharpoonup> num) option"
  wj_wind :: "(string \<rightharpoonup> num) option"
  wj_clouds :: "(string \<rightharpoonup> num) option"
  wj_weather :: "(string \<rightharpoonup> string) list option"

record air_entry =
  ae_main :: "(string \<rightharpoonup> int) option"
  ae_components :: "(string \<rightharpoonup> num) option"

record air_json =
  aj_list :: "air_entry list option"

record net =
  geo_api :: "string \<Rightarrow> exn + (string \<rightharpoonup> num) list"
  weather_api :: "num \<Rightarrow> num \<Rightarrow> exn + weather_json"
  air_api :: "num \<Rightarrow> num \<Rightarrow> exn + air_json"
  clock :: datetime

text \<open>The requests a call sends, in order.\<close>

datatype request = GeoRequest string | WeatherRequest num num | AirRequest num num

text \<open>\<^verbatim>\<open>d.get(key, default)\<close> on the outer object, and \<^verbatim>\<open>xs[0]\<close>.\<close>

definition dict_get :: "'a option \<Rightarrow> 'a \<Rightarrow> 'a" where
  "dict_get v dflt = (case v of None \<Rightarrow> dflt | Some x \<Rightarrow> x)"

definition first_item :: "'a list \<Rightarrow> exn + 'a" where
  "first_item xs = (case xs of [] \<Rightarrow> Inl IndexError | x # _ \<Rightarrow> Inr x)"

text \<open>
  data_collector.py lines 15-28. Every exception is caught and gives
  \<^verbatim>\<open>(None, None)\<close>, as does an empty list; \<^verbatim>\<open>data[0]['lat']\<close> raises KeyError on
  a missing key.
\<close>

definition get_coordinates :: "net \<Rightarrow> string \<Rightarrow> num option \<times> num option" where
  "get_coordinates nt city_name =
     (case geo_api nt city_name of
        Inl e \<Rightarrow> (None, None)
      | Inr [] \<Rightarrow> (None, None)
      | Inr (d # _) \<Rightarrow>
          (case (d ''lat'', d ''lon'') of
             (Some la, Some lo) \<Rightarrow> (Some la, Some lo)
           | _ \<Rightarrow> (None, None)))"

text \<open>data_collector.py lines 55-94. The only raise is \<^verbatim>\<open>[0]\<close> on an empty list;
  the handler returns \<^verbatim>\<open>None\<close>.\<close>

definition parse_data :: "datetime \<Rightarrow> string \<Rightarrow> weather_json \<Rightarrow> air_json \<Rightarrow> reading option" where
  "parse_data clk cty weather_data aqi_data =
     (let main = dict_get (wj_main weather_data) Map.empty;
          wind = dict_get (wj_wind weather_data) Map.empty;
          clds = dict_get (wj_clouds weather_data) Map.empty
      in case first_item (dict_get (wj_weather weather_data) [Map.empty]) of
           Inl e \<Rightarrow> None
         | Inr weather \<Rightarrow>
            (case first_item (dict_get (aj_list aqi_data)
                     [\<lparr> ae_main = None, ae_components = None \<rparr>]) of
               Inl e \<Rightarrow> None
             | Inr aqi_list \<Rightarrow>
                (let aqi_main = dict_get (ae_main aqi_list) Map.empty;
                     components = dict_get (ae_components aqi_list) Map.empty
                 in Some \<lparr> timestamp = clk,
                      city = cty,
                      temperature = main ''temp'',
                      feels_like = main ''feels_like'',
                      temp_min = main ''temp_min'',
                      temp_max = main ''temp_max'',
                      pressure = main ''pressure'',
                      humidity = main ''humidity'',
                      wind_speed = wind ''speed'',
                      wind_deg = wind ''deg'',
                      clouds = clds ''all'',
                      weather_main = weather ''main'',
                      weather_description = weather ''description'',
                      aqi = aqi_main ''aqi'',
                      pm2_5 = components ''pm2_5'',
                      pm10 = components ''pm10'',
                      co = components ''co'',
                      no2 = components ''no2'',
                      o3 = components ''o3'',
                      so2 = components ''so2'' \<rparr>)))"

text \<open>
  data_collector.py lines 30-53, with the requests sent. \<^verbatim>\<open>if not lat or not lon\<close>
  returns before any further request; a \<^verbatim>\<open>RequestException\<close> gives \<^verbatim>\<open>None\<close>, any
  other exception leaves the function.
\<close>

definition fetch_weather_data :: "net \<Rightarrow> string \<Rightarrow> request list \<times> (exn + reading option)" where
  "fetch_weather_data nt city_name =
     (case get_coordinates nt city_name of (lat, lon) \<Rightarrow>
        if \<not> truthy lat \<or> \<not> truthy lon then ([GeoRequest city_name], Inr None)
        else
          (case (lat, lon) of
             (Some la, Some lo) \<Rightarrow>
               (case weather_api nt la lo of
                  Inl e \<Rightarrow> ([GeoRequest city_name, WeatherRequest la lo],
                            if e = RequestException then Inr None else Inl e)
                | Inr weather_data \<Rightarrow>
                    (case air_api nt la lo of
                       Inl e \<Rightarrow> ([GeoRequest city_name, WeatherRequest la lo, AirRequest la lo],
                                 if e = RequestException then Inr None else Inl e)
                     | Inr aqi_data \<Rightarrow>
                         ([GeoRequest city_name, WeatherRequest la lo, AirRequest la lo],
                          Inr (parse_data (clock nt) city_name weather_data aqi_data))))
           | _ \<Rightarrow> ([GeoRequest city_name], Inr None)))"

section \<open>predict.py: feature vectors and the current block\<close>

text \<open>A row of the arrays handed to the models; an entry is \<^verbatim>\<open>None\<close> when the
  reading's field is.\<close>

type_synonym vec = "num option list"

definition of_nat_num :: "nat \<Rightarrow> num option" where
  "of_nat_num n = Some (Num (real n))"

definition of_int_num :: "int option \<Rightarrow> num option" where
  "of_int_num a = map_option (\<lambda>i. Num (real_of_int i)) a"

text \<open>predict.py lines 61-73.\<close>

definition features_temp :: "reading \<Rightarrow> datetime \<Rightarrow> vec" where
  "features_temp live_data now =
     [feels_like live_data,
      temp_min live_data,
      temp_max live_data,
      pressure live_data,
      humidity live_data,
      wind_speed live_data,
      clouds live_data,
      py_or (pm2_5 live_data) (Num 0),
      py_or (pm10 live_data) (Num 0),
      of_nat_num (hour now),
      of_nat_num (month now)]"

text \<open>predict.py lines 75-85.\<close>

definition features_weather :: "reading \<Rightarrow> datetime \<Rightarrow> vec" where
  "features_weather live_data now =
     [temperature live_data,
      humidity live_data,
      pressure live_data,
      wind_speed live_data,
      clouds live_data,
      py_or (pm2_5 live_data) (Num 0),
      of_int_num (aqi live_data),
      of_nat_num (hour now),
      of_nat_num (month now)]"

text \<open>predict.py lines 87-95.\<close>

definition features_humidity :: "reading \<Rightarrow> datetime \<Rightarrow> vec" where
  "features_humidity live_data now =
     [temperature live_data,
      pressure live_data,
      wind_speed live_data,
      clouds live_data,
      py_or (pm2_5 live_data) (Num 0),
      of_nat_num (hour now),
      of_nat_num (month now)]"

text \<open>The \<^verbatim>\<open>'current'\<close> dictionary of a prediction (predict.py lines 101-114, app.py
  lines 66-79).\<close>

record current =
  cur_temperature :: "num option"
  cur_feels_like :: "num option"
  cur_humidity :: "num option"
  cur_pressure :: "num option"
  cur_wind_speed :: "num option"
  cur_clouds :: "num option"
  cur_weather :: "string option"
  cur_description :: "string option"
  cur_aqi :: "int option"
  cur_aqi_category :: string
  cur_pm2_5 :: "num option"
  cur_pm10 :: "num option"

text \<open>predict.py lines 101-114. \<^verbatim>\<open>categories.get(None, "Unknown")\<close> finds no key.\<close>

definition current_block :: "reading \<Rightarrow> current" where
  "current_block live_data =
     \<lparr> cur_temperature = temperature live_data,
       cur_feels_like = feels_like live_data,
       cur_humidity = humidity live_data,
       cur_pressure = pressure live_data,
       cur_wind_speed = wind_speed live_data,
       cur_clouds = clouds live_data,
       cur_weather = weather_main live_data,
       cur_description = weather_description live_data,
       cur_aqi = aqi live_data,
       cur_aqi_category =
         (case aqi live_data of None \<Rightarrow> ''Unknown'' | Some a \<Rightarrow> get_aqi_category a),
       cur_pm2_5 = pm2_5 live_data,
       cur_pm10 = pm10 live_data \<rparr>"

section \<open>predict.py: loading the models\<close>

text \<open>
  The artifacts are opaque: a regressor, the classifier and the scaler are whatever
  function of the input row their \<^verbatim>\<open>predict\<close> or \<^verbatim>\<open>transform\<close> computes, and they
  may raise.
\<close>

type_synonym regressor = "vec \<Rightarrow> exn + real"
type_synonym classifier = "vec \<Rightarrow> exn + int"
type_synonym scaler_fn = "vec \<Rightarrow> exn + vec"

text \<open>The four files under \<^verbatim>\<open>models/\<close>; \<open>None\<close> when the file does not exist.\<close>

record model_files =
  TEMP_MODEL_FILE :: "regressor option"
  WEATHER_MODEL_FILE :: "classifier option"
  HUMIDITY_MODEL_FILE :: "regressor option"
  SCALER_FILE :: "scaler_fn option"

text \<open>The attributes of a \<^verbatim>\<open>WeatherPredictor\<close>.\<close>

record predictor =
  temp_model :: "regressor option"
  weather_clf :: "classifier option"
  humidity_model :: "regressor option"
  scaler :: "scaler_fn option"

definition joblib_load :: "'a option \<Rightarrow> exn + 'a" where
  "joblib_load f = (case f of None \<Rightarrow> Inl FileNotFoundError | Some a \<Rightarrow> Inr a)"

text \<open>The \<^verbatim>\<open>try\<close> block of \<^verbatim>\<open>load_models\<close> (lines 17-20): four loads in a row, the
  first exception ends the block.\<close>

definition load_models_try :: "model_files \<Rightarrow> exn + predictor" where
  "load_models_try files =
     (case joblib_load (TEMP_MODEL_FILE files) of Inl e \<Rightarrow> Inl e | Inr t \<Rightarrow>
      case joblib_load (WEATHER_MODEL_FILE files) of Inl e \<Rightarrow> Inl e | Inr w \<Rightarrow>
      case joblib_load (HUMIDITY_MODEL_FILE files) of Inl e \<Rightarrow> Inl e | Inr h \<Rightarrow>
      case joblib_load (SCALER_FILE files) of Inl e \<Rightarrow> Inl e | Inr s \<Rightarrow>
        Inr \<lparr> temp_model = Some t, weather_clf = Some w, humidity_model = Some h,
              scaler = Some s \<rparr>)"

text \<open>predict.py lines 14-27: the handler of \<^verbatim>\<open>FileNotFoundError\<close> sets all four
  attributes to \<^verbatim>\<open>None\<close>.\<close>

definition load_models :: "model_files \<Rightarrow> exn + predictor" where
  "load_models files =
     (case load_models_try files of
        Inr self \<Rightarrow> Inr self
      | Inl e \<Rightarrow>
          if e = FileNotFoundError
          then Inr \<lparr> temp_model = None, weather_clf = None, humidity_model = None,
                     scaler = None \<rparr>
          else Inl e)"

section \<open>predict.py: predict_for_city\<close>

record ml_predictions =
  predicted_temperature :: num
  temp_difference :: num
  predicted_humidity :: "num option"
  predicted_weather :: "string option"

text \<open>The dictionary \<^verbatim>\<open>predict_for_city\<close> returns on success; a key that may be missing
  is an option.\<close>

record prediction =
  p_city :: string
  p_timestamp :: string
  p_current :: current
  p_ml_predictions :: "ml_predictions option"
  p_health_advice :: string

datatype response = ErrorDict string | Prediction prediction

text \<open>\<^verbatim>\<open>round(x, 2)\<close> on the real number the float stands for: to the nearest
  hundredth, a tie to the even one.\<close>

definition round2 :: "real \<Rightarrow> real" where
  "round2 x =
     (let y = x * 100; f = \<lfloor>y\<rfloor>; d = y - of_int f
      in of_int (if d < 1 / 2 then f else if 1 / 2 < d then f + 1
                 else if even f then f else f + 1) / 100)"

text \<open>\<^verbatim>\<open>round(pred_temp - live_data['temperature'], 2)\<close>: a TypeError on \<^verbatim>\<open>None\<close>,
  NaN stays NaN.\<close>

definition diff_round2 :: "real \<Rightarrow> num option \<Rightarrow> exn + num" where
  "diff_round2 p t =
     (case t of None \<Rightarrow> Inl TypeError
      | Some NaN \<Rightarrow> Inr NaN
      | Some (Num v) \<Rightarrow> Inr (Num (round2 (p - v))))"

definition weather_classes :: "string list" where
  "weather_classes = [''Clear'', ''Clouds'', ''Rain'', ''Drizzle'', ''Snow'', ''Thunderstorm'']"

text \<open>Subscript \<^verbatim>\<open>xs[i]\<close> of a list by an integer: in range from the front, or from
  the back when \<^verbatim>\<open>i\<close> is below zero; IndexError otherwise.\<close>

definition py_index :: "'a list \<Rightarrow> int \<Rightarrow> exn + 'a" where
  "py_index xs i =
     (if 0 \<le> i \<and> i < int (length xs) then Inr (xs ! nat i)
      else if i < 0 \<and> - int (length xs) \<le> i then Inr (xs ! nat (int (length xs) + i))
      else Inl IndexError)"

text \<open>predict.py lines 132-134: the value stored under \<^verbatim>\<open>'predicted_weather'\<close>, none
  when the key is not set.\<close>

definition decode_weather :: "int \<Rightarrow> exn + string option" where
  "decode_weather pred_weather_code =
     (if pred_weather_code < int (length weather_classes)
      then (case py_index weather_classes pred_weather_code of
              Inl e \<Rightarrow> Inl e | Inr w \<Rightarrow> Inr (Some w))
      else Inr None)"

text \<open>predict.py lines 126-128.\<close>

definition humidity_part :: "predictor \<Rightarrow> reading \<Rightarrow> datetime \<Rightarrow> exn + num option" where
  "humidity_part self live_data now =
     (case humidity_model self of
        None \<Rightarrow> Inr None
      | Some m \<Rightarrow>
          (case m (features_humidity live_data now) of
             Inl e \<Rightarrow> Inl e
           | Inr pred_humidity \<Rightarrow> Inr (Some (Num (round2 pred_humidity)))))"

text \<open>predict.py lines 130-134.\<close>

definition weather_part :: "predictor \<Rightarrow> reading \<Rightarrow> datetime \<Rightarrow> exn + string option" where
  "weather_part self live_data now =
     (case weather_clf self of
        None \<Rightarrow> Inr None
      | Some clf \<Rightarrow>
          (case clf (features_weather live_data now) of
             Inl e \<Rightarrow> Inl e
           | Inr pred_weather_code \<Rightarrow> decode_weather pred_weather_code))"

text \<open>predict.py lines 117-134: the value stored under \<^verbatim>\<open>'ml_predictions'\<close>, none
  when the key is not set. In \<^verbatim>\<open>if self.temp_model and self.scaler\<close> an attribute is
  false when it is \<^verbatim>\<open>None\<close> and true when it holds a loaded artifact.\<close>

definition ml_part :: "predictor \<Rightarrow> reading \<Rightarrow> datetime \<Rightarrow> exn + ml_predictions option" where
  "ml_part self live_data now =
     (case (temp_model self, scaler self) of
        (Some tm, Some sc) \<Rightarrow>
          (case sc (features_temp live_data now) of
             Inl e \<Rightarrow> Inl e
           | Inr features_temp_scaled \<Rightarrow>
          (case tm features_temp_scaled of
             Inl e \<Rightarrow> Inl e
           | Inr pred_temp \<Rightarrow>
          (case diff_round2 pred_temp (temperature live_data) of
             Inl e \<Rightarrow> Inl e
           | Inr td \<Rightarrow>
          (case humidity_part self live_data now of
             Inl e \<Rightarrow> Inl e
           | Inr ph \<Rightarrow>
          (case weather_part self live_data now of
             Inl e \<Rightarrow> Inl e
           | Inr pw \<Rightarrow>
               Inr (Some \<lparr> predicted_temperature = Num (round2 pred_temp),
                           temp_difference = td,
                           predicted_humidity = ph,
                           predicted_weather = pw \<rparr>))))))
      | _ \<Rightarrow> Inr None)"

text \<open>predict.py lines 137-140: \<^verbatim>\<open>aqi >= 4\<close> is a TypeError when \<^verbatim>\<open>aqi\<close> is
  \<^verbatim>\<open>None\<close>.\<close>

definition advice_part :: "int option \<Rightarrow> num option \<Rightarrow> exn + string" where
  "advice_part a pm25 =
     (case a of None \<Rightarrow> Inl TypeError | Some i \<Rightarrow> Inr (get_health_advice i pm25))"

text \<open>predict.py lines 59-142, for the reading fetched.\<close>

definition predict_from :: "predictor \<Rightarrow> reading \<Rightarrow> datetime \<Rightarrow> string \<Rightarrow> exn + response" where
  "predict_from self live_data now city_name =
     (case ml_part self live_data now of
        Inl e \<Rightarrow> Inl e
      | Inr ml \<Rightarrow>
          (case advice_part (aqi live_data) (pm2_5 live_data) of
             Inl e \<Rightarrow> Inl e
           | Inr advice \<Rightarrow>
               Inr (Prediction
                 \<lparr> p_city = city_name,
                   p_timestamp = dt_str (timestamp live_data),
                   p_current = current_block live_data,
                   p_ml_predictions = ml,
                   p_health_advice = advice \<rparr>)))"

text \<open>predict.py lines 49-142. \<open>now\<close> is what \<^verbatim>\<open>datetime.now()\<close> returns on line 60.\<close>

definition predict_for_city :: "predictor \<Rightarrow> net \<Rightarrow> datetime \<Rightarrow> string \<Rightarrow> exn + response" where
  "predict_for_city self nt now city_name =
     (case snd (fetch_weather_data nt city_name) of
        Inl e \<Rightarrow> Inl e
      | Inr None \<Rightarrow> Inr (ErrorDict (''Could not fetch data for '' @ city_name))
      | Inr (Some live_data) \<Rightarrow> predict_from self live_data now city_name)"

section \<open>app.py: the sample data and the predict route\<close>

text \<open>
  A row of the dataset as pandas reads it from the CSV file: a text column holds a
  string, a numeric column a number, NaN in an empty cell. The columns listed are the
  ones the program reads.
\<close>

record row =
  col_city :: string
  col_timestamp :: string
  col_temperature :: num
  col_feels_like :: num
  col_humidity :: num
  col_pressure :: num
  col_wind_speed :: num
  col_clouds :: num
  col_weather_main :: string
  col_weather_description :: string
  col_aqi :: num
  col_pm2_5 :: num
  col_pm10 :: num

text \<open>The dataset file at start-up: missing, not readable as CSV, or a table.\<close>

datatype csv_file = NoFile | Unreadable | Table "row list"

text \<open>The module globals \<^verbatim>\<open>sample_data\<close> and \<^verbatim>\<open>has_data\<close>.\<close>

record sample_state =
  sample_data :: "row list option"
  has_data :: bool

text \<open>app.py lines 25-36.\<close>

definition load_sample_data :: "csv_file \<Rightarrow> sample_state" where
  "load_sample_data f =
     (case f of
        Table rows \<Rightarrow> \<lparr> sample_data = Some rows, has_data = (0 < length rows) \<rparr>
      | _ \<Rightarrow> \<lparr> sample_data = None, has_data = False \<rparr>)"

text \<open>\<^verbatim>\<open>int(x)\<close> on a float: truncation towards zero, ValueError on NaN.\<close>

definition py_int :: "num \<Rightarrow> exn + int" where
  "py_int x =
     (case x of NaN \<Rightarrow> Inl ValueError
      | Num r \<Rightarrow> Inr (if 0 \<le> r then \<lfloor>r\<rfloor> else \<lceil>r\<rceil>))"

text \<open>The dictionary \<^verbatim>\<open>get_sample_city_data\<close> returns.\<close>

record sample =
  s_city :: string
  s_timestamp :: string
  s_current :: current

text \<open>
  app.py lines 52-80. \<^verbatim>\<open>float()\<close> and \<^verbatim>\<open>str()\<close> keep the cell; each \<^verbatim>\<open>int()\<close>
  may raise, in the order of the dictionary literal.
\<close>

definition get_sample_city_data :: "sample_state \<Rightarrow> string \<Rightarrow> exn + sample option" where
  "get_sample_city_data st cty =
     (if \<not> has_data st then Inr None
      else case sample_data st of
        None \<Rightarrow> Inl TypeError
      | Some rows \<Rightarrow>
          (let matching = filter (\<lambda>r. col_city r = cty) rows;
               city_data = (if matching = [] then rows else matching)
           in if city_data = [] then Inl IndexError
              else
                (let latest = last city_data
                 in case py_int (col_humidity latest) of Inl e \<Rightarrow> Inl e | Inr h \<Rightarrow>
                    case py_int (col_pressure latest) of Inl e \<Rightarrow> Inl e | Inr p \<Rightarrow>
                    case py_int (col_clouds latest) of Inl e \<Rightarrow> Inl e | Inr c \<Rightarrow>
                    case py_int (col_aqi latest) of Inl e \<Rightarrow> Inl e | Inr a \<Rightarrow>
                      Inr (Some
                        \<lparr> s_city = cty,
                          s_timestamp = col_timestamp latest,
                          s_current =
                            \<lparr> cur_temperature = Some (col_temperature latest),
                              cur_feels_like = Some (col_feels_like latest),
                              cur_humidity = Some (Num (of_int h)),
                              cur_pressure = Some (Num (of_int p)),
                              cur_wind_speed = Some (col_wind_speed latest),
                              cur_clouds = Some (Num (of_int c)),
                              cur_weather = Some (col_weather_main latest),
                              cur_description = Some (col_weather_description latest),
                              cur_aqi = Some a,
                              cur_aqi_category = app_get_aqi_category a,
                              cur_pm2_5 = Some (col_pm2_5 latest),
                              cur_pm10 = Some (col_pm10 latest) \<rparr> \<rparr>))))"

text \<open>What the server holds: the predictor, the network it reaches, the clock, the
  sample data and \<^verbatim>\<open>Config.DEFAULT_CITY\<close>.\<close>

record app =
  app_predictor :: predictor
  app_net :: net
  app_now :: datetime
  app_sample :: sample_state
  DEFAULT_CITY :: string

text \<open>The JSON body of a response: \<^verbatim>\<open>success\<close> with \<^verbatim>\<open>data\<close>, or \<^verbatim>\<open>error\<close> with a
  fixed message or with the text of an exception.\<close>

datatype payload = SuccessData prediction | ErrorMessage string | ErrorException exn

record http_response =
  status :: nat
  body :: payload

text \<open>app.py lines 114-126, inside the outer handler of lines 128-129.\<close>

definition predict_fallback :: "app \<Rightarrow> string \<Rightarrow> http_response" where
  "predict_fallback ap cty =
     (case get_sample_city_data (app_sample ap) cty of
        Inl e \<Rightarrow> \<lparr> status = 500, body = ErrorException e \<rparr>
      | Inr None \<Rightarrow>
          \<lparr> status = 404,
            body = ErrorMessage ''No data available. Run generate_sample_data.py.'' \<rparr>
      | Inr (Some fallback) \<Rightarrow>
          (case advice_part (cur_aqi (s_current fallback)) (cur_pm2_5 (s_current fallback)) of
             Inl e \<Rightarrow> \<lparr> status = 500, body = ErrorException e \<rparr>
           | Inr advice \<Rightarrow>
               \<lparr> status = 200,
                 body = SuccessData
                   \<lparr> p_city = s_city fallback,
                     p_timestamp = s_timestamp fallback,
                     p_current = s_current fallback,
                     p_ml_predictions = None,
                     p_health_advice = advice \<rparr> \<rparr>))"

text \<open>
  app.py lines 100-129, for a request whose JSON body is the dictionary \<open>data\<close>. An
  exception in \<^verbatim>\<open>predict_for_city\<close> is swallowed by the bare \<^verbatim>\<open>except\<close>; a result
  with the key \<^verbatim>\<open>error\<close> is passed over.
\<close>

definition predict :: "app \<Rightarrow> (string \<rightharpoonup> string) \<Rightarrow> http_response" where
  "predict ap data =
     (let cty = (case data ''city'' of None \<Rightarrow> DEFAULT_CITY ap | Some c \<Rightarrow> c)
      in case predict_for_city (app_predictor ap) (app_net ap) (app_now ap) cty of
           Inr (Prediction predictions) \<Rightarrow>
             \<lparr> status = 200, body = SuccessData predictions \<rparr>
         | _ \<Rightarrow> predict_fallback ap cty)"

section \<open>train_model.py: the temperature model\<close>

text \<open>The data frame after \<^verbatim>\<open>load_data\<close>, row by row: a row maps a column name to
  its value.\<close>

type_synonym dataframe = "(string \<rightharpoonup> real) list"

text \<open>An estimator before fitting, with \<^verbatim>\<open>n_estimators\<close>, \<^verbatim>\<open>max_depth\<close> and
  \<^verbatim>\<open>random_state\<close>.\<close>

datatype estimator = RandomForestRegressor nat nat nat | GradientBoostingRegressor nat nat nat

text \<open>
  The library calls of the trainer, opaque: the split of the rows for a test size and a
  random state, fitting the scaler, applying it, fitting an estimator and predicting
  with the fitted model.
\<close>

record ('m, 's) sklearn =
  train_test_split ::
    "(real list \<times> real) list \<Rightarrow> real \<Rightarrow> nat \<Rightarrow> (real list \<times> real) list \<times> (real list \<times> real) list"
  fit_scaler :: "real list list \<Rightarrow> 's"
  transform :: "'s \<Rightarrow> real list list \<Rightarrow> real list list"
  fit :: "estimator \<Rightarrow> real list list \<Rightarrow> real list \<Rightarrow> 'm"
  model_predict :: "'m \<Rightarrow> real list list \<Rightarrow> real list"

text \<open>\<^verbatim>\<open>df[features].values\<close> and \<^verbatim>\<open>df[name].values\<close>: KeyError on a missing column.\<close>

definition df_columns :: "dataframe \<Rightarrow> string list \<Rightarrow> exn + real list list" where
  "df_columns df features =
     (case those (map (\<lambda>r. those (map r features)) df) of
        None \<Rightarrow> Inl KeyError | Some X \<Rightarrow> Inr X)"

definition df_column :: "dataframe \<Rightarrow> string \<Rightarrow> exn + real list" where
  "df_column df name =
     (case those (map (\<lambda>r. r name) df) of None \<Rightarrow> Inl KeyError | Some y \<Rightarrow> Inr y)"

definition mean_absolute_error :: "real list \<Rightarrow> real list \<Rightarrow> real" where
  "mean_absolute_error y_true y_pred =
     (\<Sum>(a, b) \<leftarrow> zip y_true y_pred. \<bar>a - b\<bar>) / real (length y_true)"

text \<open>train_model.py lines 45-46.\<close>

definition temperature_features :: "string list" where
  "temperature_features =
     [''feels_like'', ''temp_min'', ''temp_max'', ''pressure'', ''humidity'',
      ''wind_speed'', ''clouds'', ''pm2_5'', ''pm10'', ''hour'', ''month'']"

text \<open>train_model.py lines 59-62; a dictionary is iterated in insertion order.\<close>

definition models :: "(string \<times> estimator) list" where
  "models =
     [(''RandomForest'', RandomForestRegressor 200 15 42),
      (''GradientBoosting'', GradientBoostingRegressor 150 10 42)]"

text \<open>\<^verbatim>\<open>mae < best_score\<close>, where no score yet stands for \<^verbatim>\<open>float('inf')\<close>.\<close>

definition below :: "real \<Rightarrow> real option \<Rightarrow> bool" where
  "below mae best_score = (case best_score of None \<Rightarrow> True | Some b \<Rightarrow> mae < b)"

text \<open>The loop of train_model.py lines 64-82 over the candidates left, with
  \<^verbatim>\<open>best_model\<close> and \<^verbatim>\<open>best_score\<close> as the state.\<close>

fun select_best ::
  "('m, 's) sklearn \<Rightarrow> real list list \<Rightarrow> real list \<Rightarrow> real list list \<Rightarrow> real list
     \<Rightarrow> (string \<times> estimator) list \<Rightarrow> 'm option \<times> real option \<Rightarrow> 'm option \<times> real option" where
  "select_best lib X_train_scaled y_train X_test_scaled y_test [] best = best"
| "select_best lib X_train_scaled y_train X_test_scaled y_test ((name, est) # rest)
       (best_model, best_score) =
     (let model = fit lib est X_train_scaled y_train;
          y_pred = model_predict lib model X_test_scaled;
          mae = mean_absolute_error y_test y_pred
      in select_best lib X_train_scaled y_train X_test_scaled y_test rest
           (if below mae best_score then (Some model, Some mae)
            else (best_model, best_score)))"

text \<open>What \<^verbatim>\<open>joblib.dump\<close> writes on lines 85-86.\<close>

record ('m, 's) dumped =
  temp_model_dump :: "'m option"
  scaler_dump :: 's

text \<open>train_model.py lines 41-89.\<close>

definition train_temperature_model :: "('m, 's) sklearn \<Rightarrow> dataframe \<Rightarrow> exn + ('m, 's) dumped" where
  "train_temperature_model lib df =
     (case df_columns df temperature_features of Inl e \<Rightarrow> Inl e | Inr X \<Rightarrow>
      case df_column df ''temperature'' of Inl e \<Rightarrow> Inl e | Inr y \<Rightarrow>
        (let (train, test) = train_test_split lib (zip X y) (2 / 10) 42;
             sc = fit_scaler lib (map fst train);
             X_train_scaled = transform lib sc (map fst train);
             X_test_scaled = transform lib sc (map fst test);
             (best_model, best_score) =
               select_best lib X_train_scaled (map snd train) X_test_scaled (map snd test)
                 models (None, None)
         in Inr \<lparr> temp_model_dump = best_model, scaler_dump = sc \<rparr>))"

section \<open>train_model.py and generate_sample_data.py: the weather labels\<close>

text \<open>generate_sample_data.py line 26: the labels of the generated dataset.\<close>

definition weather_conditions :: "string list" where
  "weather_conditions = [''Clear'', ''Clouds'', ''Rain'', ''Drizzle'', ''Mist'', ''Haze'']"

text \<open>
  \<^verbatim>\<open>self.label_encoder.fit_transform(y)\<close> (train_model.py line 102), as scikit-learn
  documents \<^verbatim>\<open>LabelEncoder\<close>: the classes are the distinct labels in sorted order, and a
  label is encoded as its position among the classes.
\<close>

definition label_classes :: "string list \<Rightarrow> string list" where
  "label_classes y = sort (remdups y)"

definition label_code :: "string list \<Rightarrow> string \<Rightarrow> nat" where
  "label_code classes l = length (takeWhile (\<lambda>c. c \<noteq> l) classes)"

definition fit_transform :: "string list \<Rightarrow> nat list" where
  "fit_transform y = map (label_code (label_classes y)) y"

section \<open>Definitions that follow the spec's words\<close>

text \<open>The spec's \<open>x \<or> 0\<close>: the value of the field, zero when the field is absent.\<close>

definition or_zero :: "num option \<Rightarrow> num" where
  "or_zero x = (case x of None \<Rightarrow> Num 0 | Some v \<Rightarrow> v)"

text \<open>A predictor that has lost some of the artifacts of another: each artifact is
  either missing or the same.\<close>

definition fewer_artifacts :: "predictor \<Rightarrow> predictor \<Rightarrow> bool" where
  "fewer_artifacts s' s =
     ((temp_model s' = None \<or> temp_model s' = temp_model s)
      \<and> (weather_clf s' = None \<or> weather_clf s' = weather_clf s)
      \<and> (humidity_model s' = None \<or> humidity_model s' = humidity_model s)
      \<and> (scaler s' = None \<or> scaler s' = scaler s))"

text \<open>The integer \<^verbatim>\<open>int()\<close> gives for a number, and the rows whose four cells
  converted with \<^verbatim>\<open>int()\<close> (humidity, pressure, clouds, aqi) hold a number.\<close>

definition int_part :: "num \<Rightarrow> int" where
  "int_part x = (case x of Num r \<Rightarrow> (if 0 \<le> r then \<lfloor>r\<rfloor> else \<lceil>r\<rceil>) | NaN \<Rightarrow> 0)"

definition whole_cells :: "row \<Rightarrow> bool" where
  "whole_cells r =
     (col_humidity r \<noteq> NaN \<and> col_pressure r \<noteq> NaN \<and> col_clouds r \<noteq> NaN \<and> col_aqi r \<noteq> NaN)"

text \<open>The spec's fallback record for a row: the requested city name, every other field
  taken from the row, no \<open>ml_predictions\<close>, and the advice for the row's AQI and PM2.5.\<close>

definition row_prediction :: "string \<Rightarrow> row \<Rightarrow> prediction" where
  "row_prediction cty r =
     \<lparr> p_city = cty,
       p_timestamp = col_timestamp r,
       p_current =
         \<lparr> cur_temperature = Some (col_temperature r),
           cur_feels_like = Some (col_feels_like r),
           cur_humidity = Some (Num (of_int (int_part (col_humidity r)))),
           cur_pressure = Some (Num (of_int (int_part (col_pressure r)))),
           cur_wind_speed = Some (col_wind_speed r),
           cur_clouds = Some (Num (of_int (int_part (col_clouds r)))),
           cur_weather = Some (col_weather_main r),
           cur_description = Some (col_weather_description r),
           cur_aqi = Some (int_part (col_aqi r)),
           cur_aqi_category = get_aqi_category (int_part (col_aqi r)),
           cur_pm2_5 = Some (col_pm2_5 r),
           cur_pm10 = Some (col_pm10 r) \<rparr>,
       p_ml_predictions = None,
       p_health_advice = get_health_advice (int_part (col_aqi r)) (Some (col_pm2_5 r)) \<rparr>"

section \<open>Example inputs\<close>

definition ex_now :: datetime where
  "ex_now = \<lparr> hour = 14, month = 7, dt_str = ''2024-07-01 14:00:00'' \<rparr>"

text \<open>A reading whose source reported neither humidity nor PM2.5.\<close>

definition ex_reading :: reading where
  "ex_reading =
     \<lparr> timestamp = ex_now, city = ''Delhi'',
       temperature = Some (Num 31), feels_like = Some (Num 33),
       temp_min = Some (Num 30), temp_max = Some (Num 32),
       pressure = Some (Num 1008), humidity = None,
       wind_speed = Some (Num 3), wind_deg = Some (Num 90), clouds = Some (Num 40),
       weather_main = Some ''Clouds'', weather_description = Some ''scattered clouds'',
       aqi = Some 3, pm2_5 = None, pm10 = Some (Num 80),
       co = None, no2 = None, o3 = None, so2 = None \<rparr>"

definition ex_temp_model :: regressor where
  "ex_temp_model = (\<lambda>v. Inr 30)"

definition ex_humidity_model :: regressor where
  "ex_humidity_model = (\<lambda>v. Inr 55)"

definition ex_weather_clf :: classifier where
  "ex_weather_clf = (\<lambda>v. Inr 2)"

definition ex_scaler :: scaler_fn where
  "ex_scaler = (\<lambda>v. Inr v)"

text \<open>All four artifact files present, and the same directory without the humidity
  regressor.\<close>

definition ex_files_all :: model_files where
  "ex_files_all =
     \<lparr> TEMP_MODEL_FILE = Some ex_temp_model, WEATHER_MODEL_FILE = Some ex_weather_clf,
       HUMIDITY_MODEL_FILE = Some ex_humidity_model, SCALER_FILE = Some ex_scaler \<rparr>"

definition ex_files_no_humidity :: model_files where
  "ex_files_no_humidity =
     \<lparr> TEMP_MODEL_FILE = Some ex_temp_model, WEATHER_MODEL_FILE = Some ex_weather_clf,
       HUMIDITY_MODEL_FILE = None, SCALER_FILE = Some ex_scaler \<rparr>"

text \<open>
  A stand-in for the library: the split keeps the last row for testing, the scaler is
  the identity, a fitted model is its estimator with the constant it predicts (\<open>a\<close>
  for the random forest, \<open>b\<close> for gradient boosting).
\<close>

definition ex_lib :: "real \<Rightarrow> real \<Rightarrow> (estimator \<times> real, unit) sklearn" where
  "ex_lib a b =
     \<lparr> train_test_split = (\<lambda>rows test_size random_state.
          (take (length rows - 1) rows, drop (length rows - 1) rows)),
       fit_scaler = (\<lambda>X. ()),
       transform = (\<lambda>s X. X),
       fit = (\<lambda>est X y.
          (est, case est of RandomForestRegressor n d r \<Rightarrow> a
                | GradientBoostingRegressor n d r \<Rightarrow> b)),
       model_predict = (\<lambda>m X. map (\<lambda>x. snd m) X) \<rparr>"

definition ex_df_row :: "real \<Rightarrow> (string \<rightharpoonup> real)" where
  "ex_df_row t =
     map_of [(''temperature'', t), (''feels_like'', t + 1), (''temp_min'', t - 1),
       (''temp_max'', t + 2), (''pressure'', 1010), (''humidity'', 60), (''wind_speed'', 3),
       (''clouds'', 40), (''pm2_5'', 35), (''pm10'', 50), (''hour'', 9), (''month'', 7)]"

definition ex_df :: dataframe where
  "ex_df = [ex_df_row 25, ex_df_row 10]"

text \<open>Responses of the three services, a network that answers every city with the
  coordinates given, and one where every request fails.\<close>

definition ex_weather_json :: weather_json where
  "ex_weather_json =
     \<lparr> wj_main = Some (map_of [(''temp'', Num 31), (''feels_like'', Num 33),
          (''temp_min'', Num 30), (''temp_max'', Num 32), (''pressure'', Num 1008),
          (''humidity'', Num 70)]),
       wj_wind = Some (map_of [(''speed'', Num 3), (''deg'', Num 90)]),
       wj_clouds = Some (map_of [(''all'', Num 40)]),
       wj_weather = Some [map_of [(''main'', ''Clouds''), (''description'', ''scattered clouds'')]] \<rparr>"

definition ex_air_json :: air_json where
  "ex_air_json =
     \<lparr> aj_list = Some [\<lparr> ae_main = Some (map_of [(''aqi'', 3)]),
          ae_components = Some (map_of [(''pm2_5'', Num 60), (''pm10'', Num 80)]) \<rparr>] \<rparr>"

definition ex_net :: "num \<Rightarrow> num \<Rightarrow> net" where
  "ex_net la lo =
     \<lparr> geo_api = (\<lambda>c. Inr [map_of [(''lat'', la), (''lon'', lo)]]),
       weather_api = (\<lambda>x y. Inr ex_weather_json),
       air_api = (\<lambda>x y. Inr ex_air_json),
       clock = ex_now \<rparr>"

definition ex_net_down :: net where
  "ex_net_down =
     \<lparr> geo_api = (\<lambda>c. Inl RequestException),
       weather_api = (\<lambda>x y. Inl RequestException),
       air_api = (\<lambda>x y. Inl RequestException),
       clock = ex_now \<rparr>"

definition ex_net_delhi :: net where
  "ex_net_delhi = ex_net (Num (286 / 10)) (Num (772 / 10))"

definition ex_net_equator :: net where
  "ex_net_equator = ex_net (Num 0) (Num (1093 / 10))"

definition ex_live_reading :: reading where
  "ex_live_reading =
     \<lparr> timestamp = ex_now, city = ''Delhi'',
       temperature = Some (Num 31), feels_like = Some (Num 33),
       temp_min = Some (Num 30), temp_max = Some (Num 32),
       pressure = Some (Num 1008), humidity = Some (Num 70),
       wind_speed = Some (Num 3), wind_deg = Some (Num 90), clouds = Some (Num 40),
       weather_main = Some ''Clouds'', weather_description = Some ''scattered clouds'',
       aqi = Some 3, pm2_5 = Some (Num 60), pm10 = Some (Num 80),
       co = None, no2 = None, o3 = None, so2 = None \<rparr>"

definition ex_predictor :: predictor where
  "ex_predictor =
     \<lparr> temp_model = Some ex_temp_model, weather_clf = Some ex_weather_clf,
       humidity_model = Some ex_humidity_model, scaler = Some ex_scaler \<rparr>"

definition ex_predictor_code :: "int \<Rightarrow> predictor" where
  "ex_predictor_code c = ex_predictor \<lparr> weather_clf := Some (\<lambda>v. Inr c) \<rparr>"

definition ex_prediction :: "string option \<Rightarrow> prediction" where
  "ex_prediction pw =
     \<lparr> p_city = ''Delhi'',
       p_timestamp = ''2024-07-01 14:00:00'',
       p_current = current_block ex_live_reading,
       p_ml_predictions =
         Some \<lparr> predicted_temperature = Num 30, temp_difference = Num (- 1),
                predicted_humidity = Some (Num 55), predicted_weather = pw \<rparr>,
       p_health_advice = poor_text \<rparr>"

text \<open>Rows of a dataset, the newest last, and a server over a network and a dataset
  file.\<close>

definition ex_row :: "string \<Rightarrow> string \<Rightarrow> num \<Rightarrow> num \<Rightarrow> row" where
  "ex_row cty ts hum pm =
     \<lparr> col_city = cty, col_timestamp = ts, col_temperature = Num 29,
       col_feels_like = Num 31, col_humidity = hum, col_pressure = Num 1009,
       col_wind_speed = Num 2, col_clouds = Num 75, col_weather_main = ''Rain'',
       col_weather_description = ''light rain'', col_aqi = Num 2, col_pm2_5 = pm,
       col_pm10 = Num 90 \<rparr>"

definition ex_rows :: "row list" where
  "ex_rows =
     [ex_row ''Delhi'' ''2024-06-01 08:00:00'' (Num 40) (Num 20),
      ex_row ''Mumbai'' ''2024-06-01 10:00:00'' (Num 80) (Num 30),
      ex_row ''Delhi'' ''2024-06-01 12:00:00'' (Num 45) (Num 70),
      ex_row ''Mumbai'' ''2024-06-01 14:00:00'' (Num 85) (Num 35)]"

definition ex_rows_nan :: "row list" where
  "ex_rows_nan = [ex_row ''Delhi'' ''2024-06-01 08:00:00'' NaN (Num 20)]"

definition ex_app :: "net \<Rightarrow> csv_file \<Rightarrow> app" where
  "ex_app nt file =
     \<lparr> app_predictor = ex_predictor, app_net = nt, app_now = ex_now,
       app_sample = load_sample_data file, DEFAULT_CITY = ''Delhi'' \<rparr>"

section \<open>Helper facts\<close>

lemma advice_texts_distinct:
  "poor_text \<noteq> moderate_text" "poor_text \<noteq> good_text" "moderate_text \<noteq> good_text"
  by (simp_all add: poor_text_def moderate_text_def good_text_def)

lemma pm25_condition:
  "(truthy pm25 \<and> (case pm25 of Some v \<Rightarrow> num_gt v 55 | None \<Rightarrow> False))
     = (\<exists>r. pm25 = Some (Num r) \<and> 55 < r)"
proof (cases pm25)
  case None
  then show ?thesis by simp
next
  case (Some v)
  then show ?thesis by (cases v) auto
qed

lemma py_or_zero: "py_or x (Num 0) = Some (or_zero x)"
proof (cases x)
  case None
  then show ?thesis by (simp add: py_or_def or_zero_def)
next
  case (Some v)
  then show ?thesis by (cases v) (auto simp: py_or_def or_zero_def)
qed

lemma load_models_try_all:
  "load_models_try files =
     (if TEMP_MODEL_FILE files \<noteq> None \<and> WEATHER_MODEL_FILE files \<noteq> None
         \<and> HUMIDITY_MODEL_FILE files \<noteq> None \<and> SCALER_FILE files \<noteq> None
      then Inr \<lparr> temp_model = TEMP_MODEL_FILE files, weather_clf = WEATHER_MODEL_FILE files,
                 humidity_model = HUMIDITY_MODEL_FILE files, scaler = SCALER_FILE files \<rparr>
      else Inl FileNotFoundError)"
  by (auto simp: load_models_try_def joblib_load_def split: option.splits)

lemma select_best_two:
  "select_best lib Xtr ytr Xte yte [(n1, e1), (n2, e2)] (None, None) =
     (let m1 = fit lib e1 Xtr ytr; m2 = fit lib e2 Xtr ytr;
          mae1 = mean_absolute_error yte (model_predict lib m1 Xte);
          mae2 = mean_absolute_error yte (model_predict lib m2 Xte)
      in if mae2 < mae1 then (Some m2, Some mae2) else (Some m1, Some mae1))"
  by (simp add: below_def Let_def)

lemma ex_df_columns:
  "df_columns ex_df temperature_features =
     Inr [ [26, 24, 27, 1010, 60, 3, 40, 35, 50, 9, 7],
           [11, 9, 12, 1010, 60, 3, 40, 35, 50, 9, 7] ]"
  by (simp add: df_columns_def ex_df_def ex_df_row_def temperature_features_def)

lemma ex_df_column: "df_column ex_df ''temperature'' = Inr [25, 10]"
  by (simp add: df_column_def ex_df_def ex_df_row_def)

lemma fetch_not_truthy:
  assumes "get_coordinates nt cty = (lat, lon)" and "\<not> truthy lat \<or> \<not> truthy lon"
  shows "fetch_weather_data nt cty = ([GeoRequest cty], Inr None)"
  using assms by (simp add: fetch_weather_data_def)

lemma predict_for_city_no_reading:
  assumes "snd (fetch_weather_data nt cty) = Inr None"
  shows "predict_for_city self nt now cty = Inr (ErrorDict (''Could not fetch data for '' @ cty))"
  using assms by (simp add: predict_for_city_def)

lemma predict_live_failed:
  assumes "\<forall>r. snd (fetch_weather_data (app_net ap) cty) \<noteq> Inr (Some r)"
    and "cty = (case data ''city'' of None \<Rightarrow> DEFAULT_CITY ap | Some c \<Rightarrow> c)"
  shows "predict ap data = predict_fallback ap cty"
proof -
  have "\<forall>p. predict_for_city (app_predictor ap) (app_net ap) (app_now ap) cty
          \<noteq> Inr (Prediction p)"
    using assms(1) by (auto simp: predict_for_city_def split: sum.splits option.splits)
  then show ?thesis
    unfolding predict_def using assms(2)
    by (auto simp: Let_def split: sum.splits response.splits)
qed

lemma py_int_int_part: "x \<noteq> NaN \<Longrightarrow> py_int x = Inr (int_part x)"
  by (cases x) (simp_all add: py_int_def int_part_def)

lemma fallback_selected_row:
  assumes "rows \<noteq> []"
    and "latest = last (if filter (\<lambda>r. col_city r = cty) rows = [] then rows
                        else filter (\<lambda>r. col_city r = cty) rows)"
    and "whole_cells latest"
    and "app_sample ap = load_sample_data (Table rows)"
  shows "predict_fallback ap cty = \<lparr> status = 200, body = SuccessData (row_prediction cty latest) \<rparr>"
proof -
  have st: "has_data (app_sample ap)" "sample_data (app_sample ap) = Some rows"
    using assms(1,4) by (simp_all add: load_sample_data_def)
  have ne: "(if filter (\<lambda>r. col_city r = cty) rows = [] then rows
             else filter (\<lambda>r. col_city r = cty) rows) \<noteq> []"
    using assms(1) by simp
  have ints: "py_int (col_humidity latest) = Inr (int_part (col_humidity latest))"
    "py_int (col_pressure latest) = Inr (int_part (col_pressure latest))"
    "py_int (col_clouds latest) = Inr (int_part (col_clouds latest))"
    "py_int (col_aqi latest) = Inr (int_part (col_aqi latest))"
    using assms(3) by (simp_all add: whole_cells_def py_int_int_part)
  have "get_sample_city_data (app_sample ap) cty =
          Inr (Some \<lparr> s_city = cty, s_timestamp = col_timestamp latest,
                 s_current = p_current (row_prediction cty latest) \<rparr>)"
    unfolding get_sample_city_data_def Let_def
    using st ne ints assms(2)
    by (simp add: row_prediction_def get_aqi_category_def app_get_aqi_category_def)
  then show ?thesis
    by (simp add: predict_fallback_def advice_part_def row_prediction_def)
qed

lemma fallback_no_data:
  assumes "file = NoFile \<or> file = Unreadable \<or> file = Table []"
    and "app_sample ap = load_sample_data file"
  shows "predict_fallback ap cty =
           \<lparr> status = 404, body = ErrorMessage ''No data available. Run generate_sample_data.py.'' \<rparr>"
proof -
  have "\<not> has_data (app_sample ap)"
    using assms by (auto simp: load_sample_data_def)
  then show ?thesis
    by (simp add: predict_fallback_def get_sample_city_data_def)
qed

lemma humidity_part_present:
  "humidity_part self r now = Inr x \<Longrightarrow> (x \<noteq> None) = (humidity_model self \<noteq> None)"
  by (auto simp: humidity_part_def split: option.splits sum.splits)

lemma weather_part_present:
  "weather_part self r now = Inr x \<Longrightarrow> x \<noteq> None \<Longrightarrow> weather_clf self \<noteq> None"
  by (auto simp: weather_part_def split: option.splits sum.splits)

lemma ml_part_present:
  "ml_part self r now = Inr ml \<Longrightarrow> (ml \<noteq> None) = (temp_model self \<noteq> None \<and> scaler self \<noteq> None)"
  by (auto simp: ml_part_def split: option.splits sum.splits)

lemma ml_part_fields:
  "ml_part self r now = Inr (Some m) \<Longrightarrow>
     humidity_part self r now = Inr (predicted_humidity m)
     \<and> weather_part self r now = Inr (predicted_weather m)"
  by (auto simp: ml_part_def split: option.splits sum.splits)

lemma humidity_part_fewer:
  "humidity_part self r now = Inr x \<Longrightarrow>
   humidity_model s' = None \<or> humidity_model s' = humidity_model self \<Longrightarrow>
   \<exists>y. humidity_part s' r now = Inr y"
  by (auto simp: humidity_part_def split: option.splits sum.splits)

lemma weather_part_fewer:
  "weather_part self r now = Inr x \<Longrightarrow>
   weather_clf s' = None \<or> weather_clf s' = weather_clf self \<Longrightarrow>
   \<exists>y. weather_part s' r now = Inr y"
  by (auto simp: weather_part_def split: option.splits sum.splits)

lemma ml_part_skip:
  "temp_model s' = None \<or> scaler s' = None \<Longrightarrow> ml_part s' r now = Inr None"
  by (auto simp: ml_part_def split: option.splits)

lemma ml_part_fewer:
  assumes "ml_part self r now = Inr ml" and "fewer_artifacts s' self"
  shows "\<exists>ml'. ml_part s' r now = Inr ml'"
proof (cases "temp_model s' = None \<or> scaler s' = None")
  case True
  then show ?thesis by (simp add: ml_part_skip)
next
  case False
  then obtain tm sc where s': "temp_model s' = Some tm" "scaler s' = Some sc" by auto
  with assms(2) have s: "temp_model self = Some tm" "scaler self = Some sc"
    by (auto simp: fewer_artifacts_def)
  from assms(1) s obtain fs pt td ph pw where
    steps: "sc (features_temp r now) = Inr fs" "tm fs = Inr pt"
      "diff_round2 pt (temperature r) = Inr td"
      "humidity_part self r now = Inr ph" "weather_part self r now = Inr pw"
    by (auto simp: ml_part_def split: sum.splits)
  from steps(4) assms(2) obtain ph' where h: "humidity_part s' r now = Inr ph'"
    using humidity_part_fewer [of self r now ph s'] by (auto simp: fewer_artifacts_def)
  from steps(5) assms(2) obtain pw' where w: "weather_part s' r now = Inr pw'"
    using weather_part_fewer [of self r now pw s'] by (auto simp: fewer_artifacts_def)
  show ?thesis
    using s' steps(1-3) h w by (simp add: ml_part_def)
qed

lemma predict_for_city_success:
  assumes "predict_for_city self nt now cty = Inr (Prediction p)"
  shows "\<exists>r a. snd (fetch_weather_data nt cty) = Inr (Some r)
           \<and> ml_part self r now = Inr (p_ml_predictions p) \<and> aqi r = Some a"
  using assms
  by (auto simp: predict_for_city_def predict_from_def advice_part_def
      split: sum.splits option.splits)

lemma predict_for_city_build:
  assumes "snd (fetch_weather_data nt cty) = Inr (Some r)"
    and "ml_part self r now = Inr ml" and "aqi r = Some a"
  shows "\<exists>p. predict_for_city self nt now cty = Inr (Prediction p)"
  using assms by (simp add: predict_for_city_def predict_from_def advice_part_def)

lemma decode_weather_cases:
  assumes "decode_weather c = Inr x"
  shows "(6 \<le> c \<longrightarrow> x = None)
     \<and> (\<forall>w. x = Some w \<longrightarrow> c < 6 \<and> py_index weather_classes c = Inr w)
     \<and> (0 \<le> c \<and> c < 6 \<longrightarrow> x = Some (weather_classes ! nat c))"
  using assms
  by (auto simp: decode_weather_def weather_classes_def py_index_def split: if_splits sum.splits)

lemma label_classes_sample:
  "label_classes weather_conditions =
     [''Clear'', ''Clouds'', ''Drizzle'', ''Haze'', ''Mist'', ''Rain'']"
  unfolding label_classes_def weather_conditions_def
  by (simp add: less_eq_char_def less_char_def)

lemma fit_transform_sample: "fit_transform weather_conditions = [0, 1, 5, 2, 4, 3]"
  unfolding fit_transform_def label_classes_sample
  by (simp add: label_code_def weather_conditions_def)

lemma ex_fetch_delhi:
  "fetch_weather_data ex_net_delhi ''Delhi'' =
     ([GeoRequest ''Delhi'', WeatherRequest (Num (286 / 10)) (Num (772 / 10)),
       AirRequest (Num (286 / 10)) (Num (772 / 10))],
      Inr (Some ex_live_reading))"
  by (simp add: fetch_weather_data_def get_coordinates_def ex_net_delhi_def ex_net_def
      parse_data_def dict_get_def first_item_def ex_weather_json_def ex_air_json_def
      ex_live_reading_def)

lemma round2_30: "round2 30 = 30"
  by (simp add: round2_def Let_def)

lemma round2_m1: "round2 (- 1) = - 1"
  by (simp add: round2_def Let_def)

lemma round2_55: "round2 55 = 55"
  by (simp add: round2_def Let_def)

lemma ex_predict_live_2:
  "predict_for_city (ex_predictor_code 2) ex_net_delhi ex_now ''Delhi'' =
     Inr (Prediction (ex_prediction (Some ''Rain'')))"
  by (simp add: predict_for_city_def ex_fetch_delhi predict_from_def ml_part_def
      ex_predictor_code_def ex_predictor_def ex_scaler_def ex_temp_model_def
      ex_humidity_model_def humidity_part_def weather_part_def decode_weather_def
      weather_classes_def py_index_def diff_round2_def round2_30 round2_m1 round2_55
      advice_part_def get_health_advice_def ex_prediction_def ex_live_reading_def ex_now_def)

lemma ex_net_down_fetch: "fetch_weather_data ex_net_down c = ([GeoRequest c], Inr None)"
  by (simp add: fetch_weather_data_def get_coordinates_def ex_net_down_def)

lemma ex_app_fields:
  "app_net (ex_app nt file) = nt" "app_sample (ex_app nt file) = load_sample_data file"
  "DEFAULT_CITY (ex_app nt file) = ''Delhi''"
  by (simp_all add: ex_app_def)

lemma ex_fewer: "fewer_artifacts (ex_predictor_code 2 \<lparr> humidity_model := None \<rparr>) (ex_predictor_code 2)"
  by (simp add: fewer_artifacts_def)

lemma ex_rows_delhi:
  "filter (\<lambda>r. col_city r = ''Delhi'') ex_rows =
     [ex_row ''Delhi'' ''2024-06-01 08:00:00'' (Num 40) (Num 20),
      ex_row ''Delhi'' ''2024-06-01 12:00:00'' (Num 45) (Num 70)]"
  by (simp add: ex_rows_def ex_row_def)

lemma ex_rows_pune: "filter (\<lambda>r. col_city r = ''Pune'') ex_rows = []"
  by (simp add: ex_rows_def ex_row_def)

lemma ex_rows_last:
  "ex_rows \<noteq> []" "last ex_rows = ex_row ''Mumbai'' ''2024-06-01 14:00:00'' (Num 85) (Num 35)"
  by (simp_all add: ex_rows_def)

lemma ex_row_whole: "whole_cells (ex_row c t (Num h) pm)"
  by (simp add: whole_cells_def ex_row_def)

lemma decode_weather_omitted: "6 \<le> c \<Longrightarrow> decode_weather c = Inr None"
  by (simp add: decode_weather_def weather_classes_def)

lemma decode_weather_listed:
  "0 \<le> c \<Longrightarrow> c < 6 \<Longrightarrow> decode_weather c = Inr (Some (weather_classes ! nat c))"
  by (simp add: decode_weather_def weather_classes_def py_index_def)

lemma decode_weather_table:
  "decode_weather 0 = Inr (Some ''Clear'')" "decode_weather 1 = Inr (Some ''Clouds'')"
  "decode_weather 2 = Inr (Some ''Rain'')" "decode_weather 3 = Inr (Some ''Drizzle'')"
  "decode_weather 4 = Inr (Some ''Snow'')" "decode_weather 5 = Inr (Some ''Thunderstorm'')"
  by (simp_all add: decode_weather_def weather_classes_def py_index_def)

lemma weather_part_loaded:
  "weather_clf self = Some clf \<Longrightarrow> clf (features_weather r now) = Inr code \<Longrightarrow>
   weather_part self r now = decode_weather code"
  by (simp add: weather_part_def)

lemma humidity_part_no_clf:
  "humidity_part (self \<lparr> weather_clf := None \<rparr>) r now = humidity_part self r now"
  by (simp add: humidity_part_def)

lemma ml_part_with_clf:
  assumes "ml_part (self \<lparr> weather_clf := None \<rparr>) r now = Inr (Some m0)"
  shows "predicted_weather m0 = None
     \<and> ml_part self r now =
         (case weather_part self r now of
            Inl e \<Rightarrow> Inl e
          | Inr pw \<Rightarrow> Inr (Some (m0 \<lparr> predicted_weather := pw \<rparr>)))"
  using assms
  by (auto simp: ml_part_def humidity_part_no_clf weather_part_def
      split: option.splits sum.splits)

lemma predict_from_parts:
  "predict_from self r now cty = Inr (Prediction p) \<Longrightarrow>
   ml_part self r now = Inr (p_ml_predictions p)
   \<and> predict_from self' r now cty =
         (case ml_part self' r now of Inl e \<Rightarrow> Inl e
          | Inr ml \<Rightarrow> Inr (Prediction (p \<lparr> p_ml_predictions := ml \<rparr>)))"
  by (auto simp: predict_from_def split: sum.splits)

lemma ex_predict_no_clf:
  "predict_for_city (ex_predictor_code c \<lparr> weather_clf := None \<rparr>) ex_net_delhi ex_now ''Delhi'' =
     Inr (Prediction (ex_prediction None))"
  by (simp add: predict_for_city_def ex_fetch_delhi predict_from_def ml_part_def
      ex_predictor_code_def ex_predictor_def ex_scaler_def ex_temp_model_def
      ex_humidity_model_def humidity_part_def weather_part_def diff_round2_def
      round2_30 round2_m1 round2_55
      advice_part_def get_health_advice_def ex_prediction_def ex_live_reading_def ex_now_def)

section \<open>Claims\<close>

text \<open>
  C5. For every integer input the AQI category mapping (both copies) gives Good, Fair,
  Moderate, Poor and Very Poor on 1, 2, 3, 4 and 5, and Unknown on every integer outside
  1..5.
\<close>

theorem C5_aqi_category_table:
  "get_aqi_category 1 = ''Good'' \<and> get_aqi_category 2 = ''Fair''
   \<and> get_aqi_category 3 = ''Moderate'' \<and> get_aqi_category 4 = ''Poor''
   \<and> get_aqi_category 5 = ''Very Poor''
   \<and> (\<forall>a. a < 1 \<or> 5 < a \<longrightarrow> get_aqi_category a = ''Unknown'')
   \<and> (\<forall>a. app_get_aqi_category a = get_aqi_category a)"
  by (simp add: get_aqi_category_def app_get_aqi_category_def categories_def)

theorem C5_aqi_category_table_witness:
  "((0::int) < 1 \<or> 5 < (0::int)) \<and> get_aqi_category 0 = ''Unknown''
   \<and> get_aqi_category 6 = ''Unknown'' \<and> app_get_aqi_category 5 = ''Very Poor''"
  using C5_aqi_category_table by simp

text \<open>
  C4. For every integer aqi and every pm2_5 value (absent, NaN or a number) the health
  advisor returns the poor-quality text when aqi is at least 4 or pm2_5 is a number
  above 55, otherwise the moderate text when aqi is exactly 3, otherwise the good text;
  the three texts are distinct, and aqi is not checked against 1..5: any aqi below 3
  with pm2_5 absent or at most 55 gives the good text.
\<close>

theorem C4_health_advice:
  "get_health_advice a pm25 =
     (if a \<ge> 4 \<or> (\<exists>r. pm25 = Some (Num r) \<and> 55 < r) then poor_text
      else if a = 3 then moderate_text else good_text)
   \<and> (a < 3 \<and> (pm25 = None \<or> (\<exists>r. pm25 = Some (Num r) \<and> r \<le> 55))
        \<longrightarrow> get_health_advice a pm25 = good_text)
   \<and> poor_text \<noteq> moderate_text \<and> poor_text \<noteq> good_text \<and> moderate_text \<noteq> good_text"
proof -
  have eq: "get_health_advice a pm25 =
     (if a \<ge> 4 \<or> (\<exists>r. pm25 = Some (Num r) \<and> 55 < r) then poor_text
      else if a = 3 then moderate_text else good_text)"
    unfolding get_health_advice_def pm25_condition by (rule refl)
  have low: "a < 3 \<and> (pm25 = None \<or> (\<exists>r. pm25 = Some (Num r) \<and> r \<le> 55))
        \<longrightarrow> get_health_advice a pm25 = good_text"
    unfolding eq by auto
  from eq low advice_texts_distinct show ?thesis by blast
qed

theorem C4_health_advice_witness:
  "get_health_advice (-7) None = good_text \<and> get_health_advice 0 (Some (Num 55)) = good_text
   \<and> get_health_advice 4 (Some (Num 0)) = poor_text
   \<and> get_health_advice 1 (Some (Num 56)) = poor_text
   \<and> get_health_advice 3 (Some NaN) = moderate_text
   \<and> get_health_advice 99 None = poor_text"
  using C4_health_advice [of "-7" None] C4_health_advice [of 0 "Some (Num 55)"]
    C4_health_advice [of 4 "Some (Num 0)"] C4_health_advice [of 1 "Some (Num 56)"]
    C4_health_advice [of 3 "Some NaN"] C4_health_advice [of 99 None]
  by simp

text \<open>
  C6. Feature extraction is a function of the reading and of the hour and month of the
  timestamp, and gives three vectors: the temperature vector is feels_like, temp_min,
  temp_max, pressure, humidity, wind_speed, clouds, pm2_5-or-0, pm10-or-0, hour, month
  (11 entries); the weather vector is temperature, humidity, pressure, wind_speed,
  clouds, pm2_5-or-0, aqi, hour, month (9 entries); the humidity vector is temperature,
  pressure, wind_speed, clouds, pm2_5-or-0, hour, month (7 entries), in that order.
\<close>

theorem C6_feature_vectors:
  "features_temp r now =
     [feels_like r, temp_min r, temp_max r, pressure r, humidity r, wind_speed r, clouds r,
      Some (or_zero (pm2_5 r)), Some (or_zero (pm10 r)),
      of_nat_num (hour now), of_nat_num (month now)]
   \<and> features_weather r now =
     [temperature r, humidity r, pressure r, wind_speed r, clouds r,
      Some (or_zero (pm2_5 r)), of_int_num (aqi r),
      of_nat_num (hour now), of_nat_num (month now)]
   \<and> features_humidity r now =
     [temperature r, pressure r, wind_speed r, clouds r,
      Some (or_zero (pm2_5 r)), of_nat_num (hour now), of_nat_num (month now)]
   \<and> length (features_temp r now) = 11
   \<and> length (features_weather r now) = 9
   \<and> length (features_humidity r now) = 7
   \<and> (hour now' = hour now \<and> month now' = month now \<longrightarrow>
        features_temp r now' = features_temp r now
        \<and> features_weather r now' = features_weather r now
        \<and> features_humidity r now' = features_humidity r now)"
  by (simp add: features_temp_def features_weather_def features_humidity_def py_or_zero)

theorem C6_feature_vectors_witness:
  "features_temp ex_reading ex_now =
     [Some (Num 33), Some (Num 30), Some (Num 32), Some (Num 1008), None, Some (Num 3),
      Some (Num 40), Some (Num 0), Some (Num 80), Some (Num 14), Some (Num 7)]
   \<and> features_weather ex_reading ex_now =
     [Some (Num 31), None, Some (Num 1008), Some (Num 3), Some (Num 40), Some (Num 0),
      Some (Num 3), Some (Num 14), Some (Num 7)]
   \<and> features_humidity ex_reading ex_now =
     [Some (Num 31), Some (Num 1008), Some (Num 3), Some (Num 40), Some (Num 0),
      Some (Num 14), Some (Num 7)]
   \<and> features_temp ex_reading (ex_now \<lparr> dt_str := ''later'' \<rparr>) = features_temp ex_reading ex_now"
  using C6_feature_vectors [of ex_reading ex_now "ex_now \<lparr> dt_str := ''later'' \<rparr>"]
  by (simp add: ex_reading_def ex_now_def or_zero_def of_nat_num_def of_int_num_def)

text \<open>
  C3, as stated, fails: a reading without humidity gets no zero in the feature vectors,
  the entry stays absent.
\<close>

theorem C3_counterexample:
  "humidity ex_reading = None \<and> features_temp ex_reading ex_now ! 4 = None
   \<and> features_temp ex_reading ex_now ! 4 \<noteq> Some (Num 0)
   \<and> features_weather ex_reading ex_now ! 1 \<noteq> Some (Num 0)"
  by (simp add: features_temp_def features_weather_def ex_reading_def)

text \<open>
  C3, amended. Feature-vector construction puts a numeric zero in place of an absent
  pm2_5 (in all three vectors) and of an absent pm10 (in the temperature vector); every
  other field of the reading enters the vectors as it is, absent when it is absent. The
  current block reports every field as it is, pm2_5 and pm10 too, with no zero in
  place of an absent one.
\<close>

theorem C3_absent_fields:
  "(pm2_5 r = None \<longrightarrow>
       features_temp r now ! 7 = Some (Num 0) \<and> features_weather r now ! 5 = Some (Num 0)
       \<and> features_humidity r now ! 4 = Some (Num 0))
   \<and> (pm10 r = None \<longrightarrow> features_temp r now ! 8 = Some (Num 0))
   \<and> features_temp r now ! 0 = feels_like r \<and> features_temp r now ! 1 = temp_min r
   \<and> features_temp r now ! 2 = temp_max r \<and> features_temp r now ! 3 = pressure r
   \<and> features_temp r now ! 4 = humidity r \<and> features_temp r now ! 5 = wind_speed r
   \<and> features_temp r now ! 6 = clouds r
   \<and> features_weather r now ! 0 = temperature r \<and> features_weather r now ! 1 = humidity r
   \<and> features_weather r now ! 2 = pressure r \<and> features_weather r now ! 3 = wind_speed r
   \<and> features_weather r now ! 4 = clouds r \<and> features_weather r now ! 6 = of_int_num (aqi r)
   \<and> features_humidity r now ! 0 = temperature r \<and> features_humidity r now ! 1 = pressure r
   \<and> features_humidity r now ! 2 = wind_speed r \<and> features_humidity r now ! 3 = clouds r
   \<and> cur_temperature (current_block r) = temperature r
   \<and> cur_feels_like (current_block r) = feels_like r
   \<and> cur_humidity (current_block r) = humidity r
   \<and> cur_pressure (current_block r) = pressure r
   \<and> cur_wind_speed (current_block r) = wind_speed r
   \<and> cur_clouds (current_block r) = clouds r
   \<and> cur_aqi (current_block r) = aqi r
   \<and> cur_pm2_5 (current_block r) = pm2_5 r
   \<and> cur_pm10 (current_block r) = pm10 r"
  by (simp add: features_temp_def features_weather_def features_humidity_def current_block_def
      py_or_def)

theorem C3_absent_fields_witness:
  "pm2_5 ex_reading = None \<and> features_temp ex_reading ex_now ! 7 = Some (Num 0)
   \<and> features_weather ex_reading ex_now ! 5 = Some (Num 0)
   \<and> features_humidity ex_reading ex_now ! 4 = Some (Num 0)
   \<and> cur_pm2_5 (current_block ex_reading) = None
   \<and> pm10 (ex_reading \<lparr> pm10 := None \<rparr>) = None
   \<and> features_temp (ex_reading \<lparr> pm10 := None \<rparr>) ex_now ! 8 = Some (Num 0)
   \<and> cur_pm10 (current_block (ex_reading \<lparr> pm10 := None \<rparr>)) = None"
  using C3_absent_fields [of ex_reading ex_now]
    C3_absent_fields [of "ex_reading \<lparr> pm10 := None \<rparr>" ex_now]
  by (simp add: ex_reading_def)

text \<open>
  C2, as stated, fails: with only the humidity regressor's file missing, loading leaves
  the temperature model, the classifier and the scaler disabled as well.
\<close>

theorem C2_counterexample:
  "TEMP_MODEL_FILE ex_files_no_humidity = Some ex_temp_model
   \<and> WEATHER_MODEL_FILE ex_files_no_humidity = Some ex_weather_clf
   \<and> SCALER_FILE ex_files_no_humidity = Some ex_scaler
   \<and> HUMIDITY_MODEL_FILE ex_files_no_humidity = None
   \<and> load_models ex_files_no_humidity =
       Inr \<lparr> temp_model = None, weather_clf = None, humidity_model = None, scaler = None \<rparr>"
  by (simp add: load_models_def load_models_try_all ex_files_no_humidity_def)

text \<open>
  C2, amended. Model loading is all or nothing: when the four artifact files are all
  present the four artifacts are available; when any one of them is missing, all four
  capabilities are disabled. Loading never fails on a missing file.
\<close>

theorem C2_load_all_or_nothing:
  "(TEMP_MODEL_FILE files \<noteq> None \<and> WEATHER_MODEL_FILE files \<noteq> None
      \<and> HUMIDITY_MODEL_FILE files \<noteq> None \<and> SCALER_FILE files \<noteq> None
     \<longrightarrow> load_models files =
           Inr \<lparr> temp_model = TEMP_MODEL_FILE files, weather_clf = WEATHER_MODEL_FILE files,
                 humidity_model = HUMIDITY_MODEL_FILE files, scaler = SCALER_FILE files \<rparr>)
   \<and> (TEMP_MODEL_FILE files = None \<or> WEATHER_MODEL_FILE files = None
      \<or> HUMIDITY_MODEL_FILE files = None \<or> SCALER_FILE files = None
     \<longrightarrow> load_models files =
           Inr \<lparr> temp_model = None, weather_clf = None, humidity_model = None,
                 scaler = None \<rparr>)"
  by (simp add: load_models_def load_models_try_all)

theorem C2_load_all_or_nothing_witness:
  "load_models ex_files_all =
       Inr \<lparr> temp_model = Some ex_temp_model, weather_clf = Some ex_weather_clf,
             humidity_model = Some ex_humidity_model, scaler = Some ex_scaler \<rparr>
   \<and> HUMIDITY_MODEL_FILE ex_files_no_humidity = None
   \<and> load_models ex_files_no_humidity =
       Inr \<lparr> temp_model = None, weather_clf = None, humidity_model = None, scaler = None \<rparr>"
  using C2_load_all_or_nothing [of ex_files_all] C2_load_all_or_nothing [of ex_files_no_humidity]
  by (simp add: ex_files_all_def ex_files_no_humidity_def)

text \<open>
  C7. Temperature training evaluates exactly two candidates, the random forest first and
  gradient boosting second, both fitted on the standardized training split and scored by
  mean absolute error on the same standardized held-out split (test size 0.2, random
  state 42, the scaler fitted on the training split only). It writes the fitted scaler
  and the one candidate with the strictly lower error; when the two errors are equal
  the first candidate, the random forest, is written.
\<close>

theorem C7_temperature_selection:
  assumes "df_columns df temperature_features = Inr X"
    and "df_column df ''temperature'' = Inr y"
    and "train_test_split lib (zip X y) (2 / 10) 42 = (train, test)"
    and "sc = fit_scaler lib (map fst train)"
    and "rf = fit lib (RandomForestRegressor 200 15 42)
                (transform lib sc (map fst train)) (map snd train)"
    and "gb = fit lib (GradientBoostingRegressor 150 10 42)
                (transform lib sc (map fst train)) (map snd train)"
    and "mae_rf = mean_absolute_error (map snd test)
                (model_predict lib rf (transform lib sc (map fst test)))"
    and "mae_gb = mean_absolute_error (map snd test)
                (model_predict lib gb (transform lib sc (map fst test)))"
  shows "train_temperature_model lib df =
           Inr \<lparr> temp_model_dump = Some (if mae_gb < mae_rf then gb else rf),
                 scaler_dump = sc \<rparr>
         \<and> (mae_gb = mae_rf \<longrightarrow>
              train_temperature_model lib df = Inr \<lparr> temp_model_dump = Some rf, scaler_dump = sc \<rparr>)"
proof -
  have sel: "select_best lib (transform lib sc (map fst train)) (map snd train)
               (transform lib sc (map fst test)) (map snd test) models (None, None) =
             (if mae_gb < mae_rf then (Some gb, Some mae_gb) else (Some rf, Some mae_rf))"
    unfolding models_def select_best_two using assms(5-8) by (simp add: Let_def)
  have "train_temperature_model lib df =
           Inr \<lparr> temp_model_dump = Some (if mae_gb < mae_rf then gb else rf),
                 scaler_dump = sc \<rparr>"
    unfolding train_temperature_model_def using assms(1-4) sel
    by (simp add: Let_def)
  then show ?thesis by simp
qed

theorem C7_temperature_selection_witness:
  "train_temperature_model (ex_lib (112 / 10) (109 / 10)) ex_df =
     Inr \<lparr> temp_model_dump = Some (GradientBoostingRegressor 150 10 42, 109 / 10),
           scaler_dump = () \<rparr>
   \<and> train_temperature_model (ex_lib 11 11) ex_df =
     Inr \<lparr> temp_model_dump = Some (RandomForestRegressor 200 15 42, 11), scaler_dump = () \<rparr>"
proof -
  have a: "train_temperature_model (ex_lib (112 / 10) (109 / 10)) ex_df =
     Inr \<lparr> temp_model_dump = Some (GradientBoostingRegressor 150 10 42, 109 / 10),
           scaler_dump = () \<rparr>"
    using C7_temperature_selection [OF ex_df_columns ex_df_column, of "ex_lib (112 / 10) (109 / 10)"
        "[([26, 24, 27, 1010, 60, 3, 40, 35, 50, 9, 7], 25)]"
        "[([11, 9, 12, 1010, 60, 3, 40, 35, 50, 9, 7], 10)]"
        "()" "(RandomForestRegressor 200 15 42, 112 / 10)"
        "(GradientBoostingRegressor 150 10 42, 109 / 10)" "12 / 10" "9 / 10"]
    by (simp add: ex_lib_def mean_absolute_error_def)
  have b: "train_temperature_model (ex_lib 11 11) ex_df =
     Inr \<lparr> temp_model_dump = Some (RandomForestRegressor 200 15 42, 11), scaler_dump = () \<rparr>"
    using C7_temperature_selection [OF ex_df_columns ex_df_column, of "ex_lib 11 11"
        "[([26, 24, 27, 1010, 60, 3, 40, 35, 50, 9, 7], 25)]"
        "[([11, 9, 12, 1010, 60, 3, 40, 35, 50, 9, 7], 10)]"
        "()" "(RandomForestRegressor 200 15 42, 11)"
        "(GradientBoostingRegressor 150 10 42, 11)" "1" "1"]
    by (simp add: ex_lib_def mean_absolute_error_def)
  from a b show ?thesis by simp
qed

text \<open>
  C10. When the geocoder's first result has latitude or longitude exactly 0,
  \<^verbatim>\<open>fetch_weather_data\<close> returns the failure value after the geocoding request alone,
  with no weather and no air-pollution request, exactly as for a city the geocoder does
  not know; \<^verbatim>\<open>predict_for_city\<close> then returns its error dictionary and the predict
  route answers from the fallback path.
\<close>

theorem C10_zero_coordinate:
  assumes "geo_api nt cty = Inr (d # ds)"
    and "d ''lat'' = Some la" and "d ''lon'' = Some lo"
    and "la = Num 0 \<or> lo = Num 0"
  shows "fetch_weather_data nt cty = ([GeoRequest cty], Inr None)
     \<and> fetch_weather_data (nt \<lparr> geo_api := (\<lambda>c. Inr []) \<rparr>) cty = fetch_weather_data nt cty
     \<and> predict_for_city self nt now cty = Inr (ErrorDict (''Could not fetch data for '' @ cty))
     \<and> (app_net ap = nt \<and> data ''city'' = Some cty \<longrightarrow> predict ap data = predict_fallback ap cty)"
proof -
  have coords: "get_coordinates nt cty = (Some la, Some lo)"
    using assms(1-3) by (simp add: get_coordinates_def)
  have falsy: "\<not> truthy (Some la) \<or> \<not> truthy (Some lo)"
    using assms(4) by auto
  have f: "fetch_weather_data nt cty = ([GeoRequest cty], Inr None)"
    using coords falsy by (rule fetch_not_truthy)
  have "get_coordinates (nt \<lparr> geo_api := (\<lambda>c. Inr []) \<rparr>) cty = (None, None)"
    by (simp add: get_coordinates_def)
  then have g: "fetch_weather_data (nt \<lparr> geo_api := (\<lambda>c. Inr []) \<rparr>) cty = ([GeoRequest cty], Inr None)"
    by (rule fetch_not_truthy) simp
  have s: "snd (fetch_weather_data nt cty) = Inr None"
    using f by simp
  have p: "predict_for_city self nt now cty = Inr (ErrorDict (''Could not fetch data for '' @ cty))"
    using s by (rule predict_for_city_no_reading)
  have a: "app_net ap = nt \<and> data ''city'' = Some cty \<longrightarrow> predict ap data = predict_fallback ap cty"
  proof
    assume h: "app_net ap = nt \<and> data ''city'' = Some cty"
    then have "\<forall>r. snd (fetch_weather_data (app_net ap) cty) \<noteq> Inr (Some r)"
      using s by simp
    moreover have "cty = (case data ''city'' of None \<Rightarrow> DEFAULT_CITY ap | Some c \<Rightarrow> c)"
      using h by simp
    ultimately show "predict ap data = predict_fallback ap cty" by (rule predict_live_failed)
  qed
  from f g p a show ?thesis by simp
qed

theorem C10_zero_coordinate_witness:
  "geo_api ex_net_equator ''Pontianak'' =
     Inr [map_of [(''lat'', Num 0), (''lon'', Num (1093 / 10))]]
   \<and> fetch_weather_data ex_net_equator ''Pontianak'' = ([GeoRequest ''Pontianak''], Inr None)
   \<and> predict_for_city ex_predictor ex_net_equator ex_now ''Pontianak'' =
       Inr (ErrorDict ''Could not fetch data for Pontianak'')
   \<and> predict (ex_app ex_net_equator (Table ex_rows)) [''city'' \<mapsto> ''Pontianak''] =
       predict_fallback (ex_app ex_net_equator (Table ex_rows)) ''Pontianak''"
  using C10_zero_coordinate [of ex_net_equator "''Pontianak''"
      "map_of [(''lat'', Num 0), (''lon'', Num (1093 / 10))]" "[]" "Num 0" "Num (1093 / 10)"
      ex_predictor ex_now "ex_app ex_net_equator (Table ex_rows)" "[''city'' \<mapsto> ''Pontianak'']"]
  by (simp add: ex_net_equator_def ex_net_def ex_app_fields)

text \<open>
  C1. When live acquisition fails and the dataset has rows for the requested city, the
  route is to return the most recently inserted of them. The code misses the case of an
  empty cell: here the only row for the requested city has no humidity (NaN),
  \<^verbatim>\<open>int()\<close> raises on it, and the request ends in a 500 response carrying the
  conversion error instead of the row.
\<close>

theorem C1_nan_cell_response:
  "snd (fetch_weather_data (app_net (ex_app ex_net_down (Table ex_rows_nan))) ''Delhi'') = Inr None
   \<and> app_sample (ex_app ex_net_down (Table ex_rows_nan)) = load_sample_data (Table ex_rows_nan)
   \<and> map col_city ex_rows_nan = [''Delhi'']
   \<and> predict (ex_app ex_net_down (Table ex_rows_nan)) [''city'' \<mapsto> ''Delhi'']
       = \<lparr> status = 500, body = ErrorException ValueError \<rparr>"
proof -
  have "predict (ex_app ex_net_down (Table ex_rows_nan)) [''city'' \<mapsto> ''Delhi'']
          = predict_fallback (ex_app ex_net_down (Table ex_rows_nan)) ''Delhi''"
    by (rule predict_live_failed) (simp_all add: ex_app_fields ex_net_down_fetch)
  also have "\<dots> = \<lparr> status = 500, body = ErrorException ValueError \<rparr>"
    by (simp add: predict_fallback_def get_sample_city_data_def ex_app_fields
        load_sample_data_def ex_rows_nan_def ex_row_def py_int_def)
  finally show ?thesis
    by (simp add: ex_app_fields ex_net_down_fetch ex_rows_nan_def ex_row_def)
qed

theorem C1_nan_cell_response_witness:
  "col_humidity (hd ex_rows_nan) = NaN
   \<and> status (predict (ex_app ex_net_down (Table ex_rows_nan)) [''city'' \<mapsto> ''Delhi'']) = 500"
  using C1_nan_cell_response by (simp add: ex_rows_nan_def ex_row_def)

text \<open>
  The fallback order on rows without empty cells. For every request where live
  acquisition delivers no reading: if the dataset has rows whose city equals the
  requested city and the last of them has numbers in its humidity, pressure, clouds and
  aqi cells, the route returns that row (the integer columns converted with
  \<^verbatim>\<open>int()\<close>); if no row matches, the dataset is not empty and its last row has
  numbers in those cells, the route returns the last row overall with the city set to
  the requested name and every other field from that row; if the dataset file is
  missing, unreadable or has no rows, the route fails with status 404 and the message
  telling the operator to run the sample-data generator.
\<close>

theorem C1_fallback_order:
  assumes "\<forall>r. snd (fetch_weather_data (app_net ap) cty) \<noteq> Inr (Some r)"
    and "cty = (case data ''city'' of None \<Rightarrow> DEFAULT_CITY ap | Some c \<Rightarrow> c)"
    and "app_sample ap = load_sample_data file"
  shows "(\<forall>rows. file = Table rows \<and> filter (\<lambda>r. col_city r = cty) rows \<noteq> []
              \<and> whole_cells (last (filter (\<lambda>r. col_city r = cty) rows))
            \<longrightarrow> predict ap data =
                  \<lparr> status = 200,
                    body = SuccessData
                      (row_prediction cty (last (filter (\<lambda>r. col_city r = cty) rows))) \<rparr>)
       \<and> (\<forall>rows. file = Table rows \<and> rows \<noteq> [] \<and> filter (\<lambda>r. col_city r = cty) rows = []
              \<and> whole_cells (last rows)
            \<longrightarrow> predict ap data =
                  \<lparr> status = 200, body = SuccessData (row_prediction cty (last rows)) \<rparr>)
       \<and> (file = NoFile \<or> file = Unreadable \<or> file = Table []
            \<longrightarrow> predict ap data =
                  \<lparr> status = 404,
                    body = ErrorMessage ''No data available. Run generate_sample_data.py.'' \<rparr>)"
proof -
  have fb: "predict ap data = predict_fallback ap cty"
    using assms(1,2) by (rule predict_live_failed)
  have a: "\<forall>rows. file = Table rows \<and> filter (\<lambda>r. col_city r = cty) rows \<noteq> []
              \<and> whole_cells (last (filter (\<lambda>r. col_city r = cty) rows))
            \<longrightarrow> predict ap data =
                  \<lparr> status = 200,
                    body = SuccessData
                      (row_prediction cty (last (filter (\<lambda>r. col_city r = cty) rows))) \<rparr>"
  proof (intro allI impI)
    fix rows
    assume h: "file = Table rows \<and> filter (\<lambda>r. col_city r = cty) rows \<noteq> []
              \<and> whole_cells (last (filter (\<lambda>r. col_city r = cty) rows))"
    then have ne: "rows \<noteq> []" by auto
    have sel: "last (filter (\<lambda>r. col_city r = cty) rows) =
                 last (if filter (\<lambda>r. col_city r = cty) rows = [] then rows
                       else filter (\<lambda>r. col_city r = cty) rows)"
      using h by simp
    have w: "whole_cells (last (filter (\<lambda>r. col_city r = cty) rows))" using h by simp
    have s: "app_sample ap = load_sample_data (Table rows)" using h assms(3) by simp
    show "predict ap data =
                  \<lparr> status = 200,
                    body = SuccessData
                      (row_prediction cty (last (filter (\<lambda>r. col_city r = cty) rows))) \<rparr>"
      unfolding fb using ne sel w s by (rule fallback_selected_row)
  qed
  have b: "\<forall>rows. file = Table rows \<and> rows \<noteq> [] \<and> filter (\<lambda>r. col_city r = cty) rows = []
              \<and> whole_cells (last rows)
            \<longrightarrow> predict ap data =
                  \<lparr> status = 200, body = SuccessData (row_prediction cty (last rows)) \<rparr>"
  proof (intro allI impI)
    fix rows
    assume h: "file = Table rows \<and> rows \<noteq> [] \<and> filter (\<lambda>r. col_city r = cty) rows = []
              \<and> whole_cells (last rows)"
    then have ne: "rows \<noteq> []" by simp
    have sel: "last rows =
                 last (if filter (\<lambda>r. col_city r = cty) rows = [] then rows
                       else filter (\<lambda>r. col_city r = cty) rows)"
      using h by simp
    have w: "whole_cells (last rows)" using h by simp
    have s: "app_sample ap = load_sample_data (Table rows)" using h assms(3) by simp
    show "predict ap data =
                  \<lparr> status = 200, body = SuccessData (row_prediction cty (last rows)) \<rparr>"
      unfolding fb using ne sel w s by (rule fallback_selected_row)
  qed
  have c: "file = NoFile \<or> file = Unreadable \<or> file = Table []
            \<longrightarrow> predict ap data =
                  \<lparr> status = 404,
                    body = ErrorMessage ''No data available. Run generate_sample_data.py.'' \<rparr>"
    unfolding fb using assms(3) by (auto intro: fallback_no_data)
  from a b c show ?thesis by blast
qed

theorem C1_fallback_order_witness:
  "predict (ex_app ex_net_down (Table ex_rows)) [''city'' \<mapsto> ''Delhi''] =
     \<lparr> status = 200,
       body = SuccessData
         (row_prediction ''Delhi'' (ex_row ''Delhi'' ''2024-06-01 12:00:00'' (Num 45) (Num 70))) \<rparr>
   \<and> predict (ex_app ex_net_down (Table ex_rows)) [''city'' \<mapsto> ''Pune''] =
     \<lparr> status = 200,
       body = SuccessData
         (row_prediction ''Pune'' (ex_row ''Mumbai'' ''2024-06-01 14:00:00'' (Num 85) (Num 35))) \<rparr>
   \<and> predict (ex_app ex_net_down (Table [])) Map.empty =
     \<lparr> status = 404, body = ErrorMessage ''No data available. Run generate_sample_data.py.'' \<rparr>
   \<and> predict (ex_app ex_net_down NoFile) Map.empty =
     \<lparr> status = 404, body = ErrorMessage ''No data available. Run generate_sample_data.py.'' \<rparr>"
proof -
  have live: "\<And>f c. \<forall>r. snd (fetch_weather_data (app_net (ex_app ex_net_down f)) c)
                         \<noteq> Inr (Some r)"
    by (simp add: ex_app_fields ex_net_down_fetch)
  have smp: "\<And>f. app_sample (ex_app ex_net_down f) = load_sample_data f"
    by (simp add: ex_app_fields)
  have c1: "''Delhi'' = (case [''city'' \<mapsto> ''Delhi''] ''city'' of
              None \<Rightarrow> DEFAULT_CITY (ex_app ex_net_down (Table ex_rows)) | Some c \<Rightarrow> c)"
    by simp
  have c2: "''Pune'' = (case [''city'' \<mapsto> ''Pune''] ''city'' of
              None \<Rightarrow> DEFAULT_CITY (ex_app ex_net_down (Table ex_rows)) | Some c \<Rightarrow> c)"
    by simp
  have c3: "\<And>f. ''Delhi'' = (case Map.empty ''city'' of
              None \<Rightarrow> DEFAULT_CITY (ex_app ex_net_down f) | Some c \<Rightarrow> c)"
    by (simp add: ex_app_fields)
  have a: "predict (ex_app ex_net_down (Table ex_rows)) [''city'' \<mapsto> ''Delhi''] =
     \<lparr> status = 200,
       body = SuccessData
         (row_prediction ''Delhi'' (ex_row ''Delhi'' ''2024-06-01 12:00:00'' (Num 45) (Num 70))) \<rparr>"
    using C1_fallback_order [of "ex_app ex_net_down (Table ex_rows)" "''Delhi''"
        "[''city'' \<mapsto> ''Delhi'']" "Table ex_rows", OF live c1 smp, THEN conjunct1, THEN spec,
        of ex_rows]
    by (simp add: ex_rows_delhi ex_row_whole)
  have b: "predict (ex_app ex_net_down (Table ex_rows)) [''city'' \<mapsto> ''Pune''] =
     \<lparr> status = 200,
       body = SuccessData
         (row_prediction ''Pune'' (ex_row ''Mumbai'' ''2024-06-01 14:00:00'' (Num 85) (Num 35))) \<rparr>"
    using C1_fallback_order [of "ex_app ex_net_down (Table ex_rows)" "''Pune''"
        "[''city'' \<mapsto> ''Pune'']" "Table ex_rows", OF live c2 smp, THEN conjunct2,
        THEN conjunct1, THEN spec, of ex_rows]
    by (simp add: ex_rows_pune ex_rows_last ex_row_whole)
  have c: "predict (ex_app ex_net_down (Table [])) Map.empty =
     \<lparr> status = 404, body = ErrorMessage ''No data available. Run generate_sample_data.py.'' \<rparr>"
    using C1_fallback_order [of "ex_app ex_net_down (Table [])" "''Delhi''" Map.empty "Table []",
        OF live c3 smp, THEN conjunct2, THEN conjunct2]
    by simp
  have d: "predict (ex_app ex_net_down NoFile) Map.empty =
     \<lparr> status = 404, body = ErrorMessage ''No data available. Run generate_sample_data.py.'' \<rparr>"
    using C1_fallback_order [of "ex_app ex_net_down NoFile" "''Delhi''" Map.empty NoFile,
        OF live c3 smp, THEN conjunct2, THEN conjunct2]
    by simp
  from a b c d show ?thesis by simp
qed

text \<open>
  C8. In a successful prediction the \<open>ml_predictions\<close> block is present exactly when
  the temperature model and the scaler are both loaded; within it \<open>predicted_humidity\<close>
  is present exactly when the humidity model is loaded, and \<open>predicted_weather\<close> only
  when the classifier is loaded. A missing artifact never makes the request fail: a
  request that succeeds still succeeds when any of the artifacts is taken away.
\<close>

theorem C8_ml_block:
  assumes "predict_for_city self nt now cty = Inr (Prediction p)"
  shows "(p_ml_predictions p \<noteq> None) = (temp_model self \<noteq> None \<and> scaler self \<noteq> None)
     \<and> (\<forall>m. p_ml_predictions p = Some m \<longrightarrow>
           (predicted_humidity m \<noteq> None) = (humidity_model self \<noteq> None)
           \<and> (predicted_weather m \<noteq> None \<longrightarrow> weather_clf self \<noteq> None))
     \<and> (\<forall>s'. fewer_artifacts s' self \<longrightarrow>
           (\<exists>p'. predict_for_city s' nt now cty = Inr (Prediction p')))"
proof -
  from assms obtain r a where
    ok: "snd (fetch_weather_data nt cty) = Inr (Some r)"
      "ml_part self r now = Inr (p_ml_predictions p)" "aqi r = Some a"
    using predict_for_city_success by blast
  have a: "(p_ml_predictions p \<noteq> None) = (temp_model self \<noteq> None \<and> scaler self \<noteq> None)"
    using ok(2) by (rule ml_part_present)
  have b: "\<forall>m. p_ml_predictions p = Some m \<longrightarrow>
           (predicted_humidity m \<noteq> None) = (humidity_model self \<noteq> None)
           \<and> (predicted_weather m \<noteq> None \<longrightarrow> weather_clf self \<noteq> None)"
  proof (intro allI impI)
    fix m assume "p_ml_predictions p = Some m"
    with ok(2) have "ml_part self r now = Inr (Some m)" by simp
    then have f: "humidity_part self r now = Inr (predicted_humidity m)"
      "weather_part self r now = Inr (predicted_weather m)"
      using ml_part_fields by blast+
    show "(predicted_humidity m \<noteq> None) = (humidity_model self \<noteq> None)
           \<and> (predicted_weather m \<noteq> None \<longrightarrow> weather_clf self \<noteq> None)"
      using humidity_part_present [OF f(1)] weather_part_present [OF f(2)] by blast
  qed
  have c: "\<forall>s'. fewer_artifacts s' self \<longrightarrow>
           (\<exists>p'. predict_for_city s' nt now cty = Inr (Prediction p'))"
  proof (intro allI impI)
    fix s' assume "fewer_artifacts s' self"
    with ok(2) obtain ml' where "ml_part s' r now = Inr ml'"
      using ml_part_fewer by blast
    with ok(1,3) show "\<exists>p'. predict_for_city s' nt now cty = Inr (Prediction p')"
      using predict_for_city_build by blast
  qed
  from a b c show ?thesis by blast
qed

theorem C8_ml_block_witness:
  "predict_for_city (ex_predictor_code 2) ex_net_delhi ex_now ''Delhi'' =
     Inr (Prediction (ex_prediction (Some ''Rain'')))
   \<and> p_ml_predictions (ex_prediction (Some ''Rain'')) \<noteq> None
   \<and> temp_model (ex_predictor_code 2) \<noteq> None \<and> scaler (ex_predictor_code 2) \<noteq> None
   \<and> humidity_model (ex_predictor_code 2) \<noteq> None
   \<and> (\<exists>p'. predict_for_city (ex_predictor_code 2 \<lparr> humidity_model := None \<rparr>)
              ex_net_delhi ex_now ''Delhi'' = Inr (Prediction p'))"
proof -
  note t = C8_ml_block [OF ex_predict_live_2]
  from t have "p_ml_predictions (ex_prediction (Some ''Rain'')) \<noteq> None
   \<and> temp_model (ex_predictor_code 2) \<noteq> None \<and> scaler (ex_predictor_code 2) \<noteq> None"
    by (simp add: ex_prediction_def)
  moreover from t have "humidity_model (ex_predictor_code 2) \<noteq> None"
    by (simp add: ex_prediction_def)
  moreover from t ex_fewer have "\<exists>p'. predict_for_city (ex_predictor_code 2 \<lparr> humidity_model := None \<rparr>)
              ex_net_delhi ex_now ''Delhi'' = Inr (Prediction p')"
    by blast
  ultimately show ?thesis using ex_predict_live_2 by simp
qed

text \<open>
  C9. Take a request that succeeds with an \<open>ml_predictions\<close> block when the
  classifier is left out, and load a classifier that predicts the class index
  \<open>code\<close>. When \<open>code\<close> is 6 or more the request succeeds with the very same
  result: the \<open>predicted_weather\<close> key is omitted and nothing is raised. When
  \<open>code\<close> is from 0 to 5 the request succeeds with the same result plus
  \<open>predicted_weather\<close> set to the entry of the fixed list Clear, Clouds, Rain,
  Drizzle, Snow, Thunderstorm at \<open>code\<close>. Whenever the key is present in a result,
  its value is the entry of that list at \<open>code\<close>. The decoding step alone gives no key
  on every index from 6 on and the six labels on 0 to 5. The list is not the label
  encoder's mapping: fitted on the labels of the sample-data generator the encoder gives
  Drizzle the code 2, and 2 is decoded as Rain.
\<close>

theorem C9_weather_decoding:
  assumes "snd (fetch_weather_data nt cty) = Inr (Some r)"
    and "weather_clf self = Some clf"
    and "clf (features_weather r now) = Inr code"
    and "predict_for_city (self \<lparr> weather_clf := None \<rparr>) nt now cty = Inr (Prediction p0)"
    and "p_ml_predictions p0 = Some m0"
  shows "(6 \<le> code \<longrightarrow> predict_for_city self nt now cty = Inr (Prediction p0))
     \<and> predicted_weather m0 = None
     \<and> (0 \<le> code \<and> code < 6 \<longrightarrow>
          predict_for_city self nt now cty =
            Inr (Prediction (p0 \<lparr> p_ml_predictions :=
                   Some (m0 \<lparr> predicted_weather := Some (weather_classes ! nat code) \<rparr>) \<rparr>)))
     \<and> (\<forall>p m w. predict_for_city self nt now cty = Inr (Prediction p)
            \<and> p_ml_predictions p = Some m \<and> predicted_weather m = Some w \<longrightarrow>
            code < 6 \<and> py_index weather_classes code = Inr w)
     \<and> (\<forall>c. 6 \<le> c \<longrightarrow> decode_weather c = Inr None)
     \<and> map decode_weather [0, 1, 2, 3, 4, 5] =
         map (\<lambda>w. Inr (Some w))
           [''Clear'', ''Clouds'', ''Rain'', ''Drizzle'', ''Snow'', ''Thunderstorm'']
     \<and> label_code (label_classes weather_conditions) ''Drizzle'' = 2
     \<and> weather_classes ! 2 = ''Rain''"
proof -
  have pf0: "predict_from (self \<lparr> weather_clf := None \<rparr>) r now cty = Inr (Prediction p0)"
    using assms(1,4) by (simp add: predict_for_city_def)
  have pc: "predict_for_city self nt now cty = predict_from self r now cty"
    using assms(1) by (simp add: predict_for_city_def)
  from predict_from_parts [OF pf0, of self] have
    ml0: "ml_part (self \<lparr> weather_clf := None \<rparr>) r now = Inr (p_ml_predictions p0)"
    and pf: "predict_from self r now cty =
          (case ml_part self r now of Inl e \<Rightarrow> Inl e
           | Inr ml \<Rightarrow> Inr (Prediction (p0 \<lparr> p_ml_predictions := ml \<rparr>)))"
    by simp_all
  from ml0 assms(5) have "ml_part (self \<lparr> weather_clf := None \<rparr>) r now = Inr (Some m0)"
    by simp
  from ml_part_with_clf [OF this] have
    none0: "predicted_weather m0 = None"
    and ml: "ml_part self r now =
         (case weather_part self r now of
            Inl e \<Rightarrow> Inl e
          | Inr pw \<Rightarrow> Inr (Some (m0 \<lparr> predicted_weather := pw \<rparr>)))"
    by simp_all
  have wp: "weather_part self r now = decode_weather code"
    using assms(2,3) by (rule weather_part_loaded)
  have a: "6 \<le> code \<longrightarrow> predict_for_city self nt now cty = Inr (Prediction p0)"
  proof
    assume "6 \<le> code"
    then have "decode_weather code = Inr None" by (rule decode_weather_omitted)
    with ml wp have "ml_part self r now = Inr (Some (m0 \<lparr> predicted_weather := None \<rparr>))"
      by simp
    moreover have "m0 \<lparr> predicted_weather := None \<rparr> = m0" using none0 by simp
    ultimately have "ml_part self r now = Inr (p_ml_predictions p0)"
      using assms(5) by simp
    with pf pc show "predict_for_city self nt now cty = Inr (Prediction p0)" by simp
  qed
  have b: "0 \<le> code \<and> code < 6 \<longrightarrow>
          predict_for_city self nt now cty =
            Inr (Prediction (p0 \<lparr> p_ml_predictions :=
                   Some (m0 \<lparr> predicted_weather := Some (weather_classes ! nat code) \<rparr>) \<rparr>))"
  proof
    assume "0 \<le> code \<and> code < 6"
    then have "decode_weather code = Inr (Some (weather_classes ! nat code))"
      by (simp add: decode_weather_listed)
    with ml wp have "ml_part self r now =
        Inr (Some (m0 \<lparr> predicted_weather := Some (weather_classes ! nat code) \<rparr>))"
      by simp
    with pf pc show "predict_for_city self nt now cty =
            Inr (Prediction (p0 \<lparr> p_ml_predictions :=
                   Some (m0 \<lparr> predicted_weather := Some (weather_classes ! nat code) \<rparr>) \<rparr>))"
      by simp
  qed
  have c: "\<forall>p m w. predict_for_city self nt now cty = Inr (Prediction p)
            \<and> p_ml_predictions p = Some m \<and> predicted_weather m = Some w \<longrightarrow>
            code < 6 \<and> py_index weather_classes code = Inr w"
  proof (intro allI impI)
    fix p m w
    assume h: "predict_for_city self nt now cty = Inr (Prediction p)
            \<and> p_ml_predictions p = Some m \<and> predicted_weather m = Some w"
    with pc pf ml wp have "decode_weather code = Inr (Some w)"
      by (auto split: sum.splits)
    then show "code < 6 \<and> py_index weather_classes code = Inr w"
      using decode_weather_cases by blast
  qed
  have d: "\<forall>c. 6 \<le> c \<longrightarrow> decode_weather c = Inr None"
    by (simp add: decode_weather_omitted)
  have e: "map decode_weather [0, 1, 2, 3, 4, 5] =
         map (\<lambda>w. Inr (Some w))
           [''Clear'', ''Clouds'', ''Rain'', ''Drizzle'', ''Snow'', ''Thunderstorm'']"
    by (simp add: decode_weather_table)
  have f: "label_code (label_classes weather_conditions) ''Drizzle'' = 2"
    unfolding label_classes_sample by (simp add: label_code_def)
  have g: "weather_classes ! 2 = ''Rain''" by (simp add: weather_classes_def)
  from a none0 b c d e f g show ?thesis by blast
qed

theorem C9_weather_decoding_witness:
  "predict_for_city (ex_predictor_code 7) ex_net_delhi ex_now ''Delhi'' =
     Inr (Prediction (ex_prediction None))
   \<and> predict_for_city (ex_predictor_code 6) ex_net_delhi ex_now ''Delhi'' =
     Inr (Prediction (ex_prediction None))
   \<and> predict_for_city (ex_predictor_code 3) ex_net_delhi ex_now ''Delhi'' =
     Inr (Prediction (ex_prediction (Some ''Drizzle'')))
   \<and> predict_for_city (ex_predictor_code 0) ex_net_delhi ex_now ''Delhi'' =
     Inr (Prediction (ex_prediction (Some ''Clear'')))
   \<and> decode_weather 6 = Inr None"
proof -
  have f: "snd (fetch_weather_data ex_net_delhi ''Delhi'') = Inr (Some ex_live_reading)"
    by (simp add: ex_fetch_delhi)
  have m: "p_ml_predictions (ex_prediction None) =
      Some \<lparr> predicted_temperature = Num 30, temp_difference = Num (- 1),
             predicted_humidity = Some (Num 55), predicted_weather = None \<rparr>"
    by (simp add: ex_prediction_def)
  have clf: "\<And>c. weather_clf (ex_predictor_code c) = Some (\<lambda>v. Inr c)"
    by (simp add: ex_predictor_code_def)
  note t = C9_weather_decoding [OF f clf refl ex_predict_no_clf m]
  have a: "predict_for_city (ex_predictor_code 7) ex_net_delhi ex_now ''Delhi'' =
     Inr (Prediction (ex_prediction None))"
    using t [of 7] by simp
  have b: "predict_for_city (ex_predictor_code 6) ex_net_delhi ex_now ''Delhi'' =
     Inr (Prediction (ex_prediction None))"
    using t [of 6] by simp
  have c: "predict_for_city (ex_predictor_code 3) ex_net_delhi ex_now ''Delhi'' =
     Inr (Prediction (ex_prediction (Some ''Drizzle'')))"
    using t [of 3] by (simp add: ex_prediction_def weather_classes_def)
  have d: "predict_for_city (ex_predictor_code 0) ex_net_delhi ex_now ''Delhi'' =
     Inr (Prediction (ex_prediction (Some ''Clear'')))"
    using t [of 0] by (simp add: ex_prediction_def weather_classes_def)
  have e: "decode_weather 6 = Inr None"
    using t [of 6] by simp
  from a b c d e show ?thesis by simp
qed

end
